theory Spec2Isabelle
  imports Main "HOL-Library.Word" "HOL-Library.Sublist"
begin

section \<open>The AST-aware file reader: \<open>ast-read-mcp/build/tools/read.js\<close>\<close>

text \<open>
  The development embeds class \<open>AstReadTool\<close> of \<open>build/tools/read.js\<close>. JavaScript
  numbers that hold line numbers and counts are \<^typ>\<open>int\<close>; identifiers, tags and messages
  are \<^typ>\<open>string\<close>; the text of a file is a sequence of UTF-16 code units, which is what
  \<open>content.length\<close>, \<open>content.split\<close> and \<open>lines.slice\<close> see.
\<close>

subsection \<open>Function records and their deduplication\<close>

datatype function_type = function_declaration | arrow_function | function_expression

text \<open>The object pushed onto \<open>functions\<close> by the outline visitors.\<close>

record function_info =
  fn_name :: string
  fn_line :: int
  fn_column :: int
  fn_async :: bool
  fn_signature :: string
  fn_type :: function_type
  fn_jsdoc :: "string option"

text \<open>
  The key \<open>`${func.name}:${func.line}:${func.type}`\<close>. A name is an identifier and holds
  no colon, so the rendered string determines the three components and the triple stands for
  it.
\<close>

type_synonym func_key = "string \<times> int \<times> function_type"

definition func_key :: "function_info \<Rightarrow> func_key" where
  "func_key func = (fn_name func, fn_line func, fn_type func)"

text \<open>
  A JavaScript \<open>Map\<close> keeps its entries in insertion order and \<open>entries()\<close> walks them in
  that order: an association list with distinct keys.
\<close>

type_synonym seen_map = "(func_key \<times> function_info) list"

definition map_has :: "seen_map \<Rightarrow> func_key \<Rightarrow> bool" where
  "map_has seen key = (key \<in> fst ` set seen)"

definition map_delete :: "seen_map \<Rightarrow> func_key \<Rightarrow> seen_map" where
  "map_delete seen key = filter (\<lambda>entry. fst entry \<noteq> key) seen"

definition map_set :: "seen_map \<Rightarrow> func_key \<Rightarrow> function_info \<Rightarrow> seen_map" where
  "map_set seen key func =
     (if map_has seen key
      then map (\<lambda>entry. if fst entry = key then (key, func) else entry) seen
      else seen @ [(key, func)])"

text \<open>The condition of the inner \<open>for\<close> loop: same name, lines at most two apart.\<close>

definition nearby :: "function_info \<Rightarrow> function_info \<Rightarrow> bool" where
  "nearby existingFunc func =
     (fn_name existingFunc = fn_name func \<and> \<bar>fn_line existingFunc - fn_line func\<bar> \<le> 2)"

text \<open>
  One call of the callback given to \<open>functions.filter\<close>: the verdict for \<open>func\<close> and the
  map \<open>seen\<close> afterwards. Both branches under the loop's \<open>if\<close> return, so only the first
  nearby entry of \<open>seen\<close> is ever looked at.
\<close>

definition dedup_step :: "seen_map \<Rightarrow> function_info \<Rightarrow> bool \<times> seen_map" where
  "dedup_step seen func =
     (let key = func_key func in
      if map_has seen key then (False, seen)
      else
        (case find (\<lambda>entry. nearby (snd entry) func) seen of
           Some (existingKey, existingFunc) \<Rightarrow>
             if fn_type func = function_declaration
                \<and> fn_type existingFunc \<noteq> function_declaration
             then (True, map_set (map_delete seen existingKey) key func)
             else (False, seen)
         | None \<Rightarrow> (True, map_set seen key func)))"

fun dedup_filter :: "seen_map \<Rightarrow> function_info list \<Rightarrow> function_info list" where
  "dedup_filter seen [] = []"
| "dedup_filter seen (func # rest) =
     (case dedup_step seen func of
        (keep, seen') \<Rightarrow> (if keep then [func] else []) @ dedup_filter seen' rest)"

definition deduplicateFunctions :: "function_info list \<Rightarrow> function_info list" where
  "deduplicateFunctions functions = dedup_filter [] functions"

subsection \<open>Strings, lines and \<open>Array.prototype.slice\<close>\<close>

text \<open>
  The text of a file as JavaScript holds it: UTF-16 code units. \<open>ascii\<close> writes the code
  units of an ASCII literal.
\<close>

type_synonym jsstring = "16 word list"

definition ascii :: "string \<Rightarrow> jsstring" where
  "ascii s = map of_char s"

text \<open>\<open>s.split(sep)\<close> for a separator of one unit; used with \<open>"\n"\<close>, \<open>":"\<close> and \<open>"."\<close>.\<close>

fun split_on :: "'a \<Rightarrow> 'a list \<Rightarrow> 'a list list" where
  "split_on sep [] = [[]]"
| "split_on sep (c # cs) =
     (if c = sep then [] # split_on sep cs
      else (case split_on sep cs of
              [] \<Rightarrow> [[c]]
            | l # ls \<Rightarrow> (c # l) # ls))"

fun join_with :: "'a list \<Rightarrow> 'a list list \<Rightarrow> 'a list" where
  "join_with sep [] = []"
| "join_with sep [l] = l"
| "join_with sep (l # ls) = l @ sep @ join_with sep ls"

definition newline :: "16 word" where
  "newline = 10"

definition split_lines :: "jsstring \<Rightarrow> jsstring list" where
  "split_lines content = split_on newline content"

definition join_lines :: "jsstring list \<Rightarrow> jsstring" where
  "join_lines ls = join_with [newline] ls"

text \<open>
  \<open>xs.slice(start, end)\<close> as ECMAScript defines it: a negative index counts from the end,
  every index is clamped to \<open>[0, length]\<close>, and an empty range gives the empty array. It
  never throws.
\<close>

definition js_slice :: "'a list \<Rightarrow> int \<Rightarrow> int \<Rightarrow> 'a list" where
  "js_slice xs start end =
     (let len = int (length xs);
          k = (if start < 0 then max (len + start) 0 else min start len);
          final = (if end < 0 then max (len + end) 0 else min end len)
      in take (nat (final - k)) (drop (nat k) xs))"

text \<open>\<open>x || d\<close> on numbers: \<open>0\<close> is falsy, so it yields \<open>d\<close>.\<close>

definition num_or :: "int \<Rightarrow> int \<Rightarrow> int" where
  "num_or x d = (if x = 0 then d else x)"

subsection \<open>Reading a file as UTF-8\<close>

text \<open>
  \<open>fs.readFileSync(path, "utf-8")\<close> decodes the bytes of the file into a string. The
  decoder is the platform's, not the repository's; it is modelled here after the UTF-8
  decoding algorithm (an ill-formed sequence gives U+FFFD, a code point above U+FFFF gives a
  surrogate pair).
\<close>

type_synonym byte = "8 word"

record utf8_state =
  code_point :: nat
  bytes_seen :: nat
  bytes_needed :: nat
  lower_boundary :: nat
  upper_boundary :: nat

definition utf8_init :: utf8_state where
  "utf8_init = \<lparr>code_point = 0, bytes_seen = 0, bytes_needed = 0,
                 lower_boundary = 128, upper_boundary = 191\<rparr>"

definition utf16_units :: "nat \<Rightarrow> jsstring" where
  "utf16_units cp =
     (if cp < 65536 then [of_nat cp]
      else [of_nat (55296 + (cp - 65536) div 1024), of_nat (56320 + (cp - 65536) mod 1024)])"

definition replacement :: "16 word" where
  "replacement = 65533"

definition utf8_lead :: "nat \<Rightarrow> jsstring \<times> utf8_state" where
  "utf8_lead b =
     (if b \<le> 127 then ([of_nat b], utf8_init)
      else if 194 \<le> b \<and> b \<le> 223
        then ([], utf8_init\<lparr>bytes_needed := 1, code_point := b mod 32\<rparr>)
      else if 224 \<le> b \<and> b \<le> 239
        then ([], utf8_init\<lparr>bytes_needed := 2, code_point := b mod 16,
                lower_boundary := (if b = 224 then 160 else 128),
                upper_boundary := (if b = 237 then 159 else 191)\<rparr>)
      else if 240 \<le> b \<and> b \<le> 244
        then ([], utf8_init\<lparr>bytes_needed := 3, code_point := b mod 8,
                lower_boundary := (if b = 240 then 144 else 128),
                upper_boundary := (if b = 244 then 143 else 191)\<rparr>)
      else ([replacement], utf8_init))"

fun utf8_decode_from :: "utf8_state \<Rightarrow> byte list \<Rightarrow> jsstring" where
  "utf8_decode_from st [] = (if bytes_needed st = 0 then [] else [replacement])"
| "utf8_decode_from st (w # ws) =
     (let b = unat w in
      if bytes_needed st = 0
        then (case utf8_lead b of (out, st') \<Rightarrow> out @ utf8_decode_from st' ws)
      else if b < lower_boundary st \<or> upper_boundary st < b
        then replacement # (case utf8_lead b of (out, st') \<Rightarrow> out @ utf8_decode_from st' ws)
      else
        (let cp = code_point st * 64 + b mod 64 in
         if Suc (bytes_seen st) = bytes_needed st
           then utf16_units cp @ utf8_decode_from utf8_init ws
         else utf8_decode_from
                (st\<lparr>code_point := cp, bytes_seen := Suc (bytes_seen st),
                    lower_boundary := 128, upper_boundary := 191\<rparr>) ws))"

definition utf8_decode :: "byte list \<Rightarrow> jsstring" where
  "utf8_decode bytes = utf8_decode_from utf8_init bytes"

subsection \<open>Requests, errors and results\<close>

datatype read_mode = full | outline | target | lines

text \<open>
  The request after \<open>ReadFileSchema.parse\<close> has filled in the defaults. The schema admits
  the four modes only, so the \<open>default\<close> branch of the \<open>switch\<close> in \<open>execute\<close> has no
  request that reaches it.
\<close>

record params =
  p_file_path :: string
  p_mode :: read_mode
  p_target :: "string option"
  p_line :: "int option"
  p_linesAbove :: int
  p_linesBelow :: int
  p_context :: bool
  p_contextLines :: int
  p_show_calls :: bool
  p_show_dependencies :: bool
  p_verbose :: bool

text \<open>
  A template literal: its fixed text and the values put into it. \<open>Num\<close> is a number as the
  template renders it, \<open>Check\<close> the check-mark emoji that opens every summary and
  \<open>Bullet\<close> the bullet character of the hints. \<open>quoted\<close> puts a text between single
  quotes.
\<close>

datatype text_part = Str string | Num int | Check | Bullet

type_synonym message = "text_part list"

definition quoted :: "string \<Rightarrow> string" where
  "quoted s = [CHR 0x27] @ s @ [CHR 0x27]"

text \<open>A thrown \<open>Error\<close>: \<open>error.message\<close> and \<open>error.constructor.name\<close>.\<close>

record js_error =
  err_message :: string
  err_constructor_name :: string

record error_response =
  er_error :: message
  er_error_type :: string
  er_file_path :: string
  er_mode :: read_mode
  er_hint :: "message option"

definition createError ::
  "message \<Rightarrow> string \<Rightarrow> string \<Rightarrow> read_mode \<Rightarrow> message option \<Rightarrow> error_response" where
  "createError msg type filePath md hint =
     \<lparr>er_error = msg, er_error_type = type, er_file_path = filePath, er_mode = md,
      er_hint = hint\<rparr>"

text \<open>\<open>toLowerCase\<close> and \<open>includes\<close> on the ASCII text of an error message.\<close>

definition toLowerCase :: "string \<Rightarrow> string" where
  "toLowerCase s =
     map (\<lambda>c. if 65 \<le> (of_char c :: nat) \<and> (of_char c :: nat) \<le> 90
               then char_of ((of_char c :: nat) + 32) else c) s"

fun js_includes :: "'a list \<Rightarrow> 'a list \<Rightarrow> bool" where
  "js_includes [] needle = (needle = [])"
| "js_includes (c # cs) needle = (prefix needle (c # cs) \<or> js_includes cs needle)"

definition getHelpfulHint :: "js_error \<Rightarrow> string" where
  "getHelpfulHint error =
     (let msg = toLowerCase (err_message error) in
      if js_includes msg ''unexpected token''
        then ''File may contain syntax errors or use unsupported JavaScript features. Try using mode='full' instead.''
      else if js_includes msg ''eof'' \<or> js_includes msg ''unterminated''
        then ''File appears to have unclosed brackets or strings. Check file syntax.''
      else ''Try using mode='full' to read the entire file without parsing.'')"

record full_result =
  fr_file_path :: string
  fr_line_count :: int
  fr_size_bytes :: int
  fr_content :: jsstring

record lines_result =
  lr_file_path :: string
  lr_target_line :: int
  lr_start_line :: int
  lr_end_line :: int
  lr_total_lines :: int
  lr_lines_above :: int
  lr_lines_below :: int
  lr_content :: jsstring
  lr_summary :: "message option"

definition readFull :: "string \<Rightarrow> jsstring \<Rightarrow> full_result" where
  "readFull filePath content =
     (let ls = split_lines content in
      \<lparr>fr_file_path = filePath,
       fr_line_count = int (length ls),
       fr_size_bytes = int (length content),
       fr_content = content\<rparr>)"

text \<open>
  \<open>readLines\<close>; \<open>targetLine\<close> is \<open>params.line\<close>, which \<open>execute\<close> has found to be
  present before the call.
\<close>

definition readLines :: "params \<Rightarrow> int \<Rightarrow> jsstring \<Rightarrow> error_response + lines_result" where
  "readLines ps targetLine content =
     (let ls = split_lines content;
          linesAbove = num_or (p_linesAbove ps) 10;
          linesBelow = num_or (p_linesBelow ps) 10
      in
      if targetLine < 1 \<or> targetLine > int (length ls)
      then Inl (createError
                  [Str ''Line '', Num targetLine, Str '' out of range (file has '',
                   Num (int (length ls)), Str '' lines)'']
                  ''LINE_OUT_OF_RANGE'' (p_file_path ps) (p_mode ps) None)
      else
        (let startLine = max 1 (targetLine - linesAbove);
             endLine = min (int (length ls)) (targetLine + linesBelow);
             extractedLines = js_slice ls (startLine - 1) endLine;
             codeContent = join_lines extractedLines
         in Inr \<lparr>lr_file_path = p_file_path ps,
                 lr_target_line = targetLine,
                 lr_start_line = startLine,
                 lr_end_line = endLine,
                 lr_total_lines = int (length ls),
                 lr_lines_above = targetLine - startLine,
                 lr_lines_below = endLine - targetLine,
                 lr_content = codeContent,
                 lr_summary =
                   (if p_verbose ps then None
                    else Some [Check, Str '' Showing line '', Num targetLine, Str '' ('',
                               Num startLine, Str ''-'', Num endLine, Str '' of '',
                               Num (int (length ls)), Str '' total lines)''])\<rparr>))"

subsection \<open>Extraction of a target with its context\<close>

datatype target_type = class_target | method_target | function_target

record target_result =
  tr_target_type :: target_type
  tr_target_name :: string
  tr_class_name :: "string option"
  tr_line :: int
  tr_end_line :: int
  tr_code :: jsstring
  tr_context_before :: jsstring
  tr_context_after :: jsstring
  tr_summary :: "message option"

text \<open>
  The closure \<open>extractCode\<close> of \<open>readTarget\<close>, with the variables it captures as its first
  three arguments: \<open>lines\<close>, \<open>contextLines\<close> (already \<open>params.contextLines || 5\<close>) and
  \<open>params.context\<close>. The three slices are named so that properties can speak of the lines
  taken before they are joined. The spread \<open>...(className && {class_name: className})\<close>
  adds the field only for a truthy, that is present and non-empty, class name.
\<close>

definition contextStart :: "int \<Rightarrow> int \<Rightarrow> int" where
  "contextStart contextLines start = max 0 (start - contextLines)"

definition contextEnd :: "jsstring list \<Rightarrow> int \<Rightarrow> int \<Rightarrow> int" where
  "contextEnd ls contextLines end = min (int (length ls)) (end + contextLines)"

definition code_slice :: "jsstring list \<Rightarrow> int \<Rightarrow> int \<Rightarrow> jsstring list" where
  "code_slice ls start end = js_slice ls (start - 1) end"

definition before_slice :: "jsstring list \<Rightarrow> int \<Rightarrow> int \<Rightarrow> jsstring list" where
  "before_slice ls contextLines start =
     js_slice ls (contextStart contextLines start) (start - 1)"

definition after_slice :: "jsstring list \<Rightarrow> int \<Rightarrow> int \<Rightarrow> jsstring list" where
  "after_slice ls contextLines end = js_slice ls end (contextEnd ls contextLines end)"

definition extractCode ::
  "jsstring list \<Rightarrow> int \<Rightarrow> bool \<Rightarrow> int \<Rightarrow> int \<Rightarrow> target_type \<Rightarrow> string \<Rightarrow> string option
     \<Rightarrow> target_result" where
  "extractCode ls contextLines ctx start end targetType targetName className =
     \<lparr>tr_target_type = targetType,
      tr_target_name = targetName,
      tr_class_name = (case className of
                         None \<Rightarrow> None
                       | Some c \<Rightarrow> if c = [] then None else Some c),
      tr_line = start,
      tr_end_line = end,
      tr_code = join_lines (code_slice ls start end),
      tr_context_before =
        (if ctx then join_lines (before_slice ls contextLines start) else []),
      tr_context_after =
        (if ctx then join_lines (after_slice ls contextLines end) else []),
      tr_summary = None\<rparr>"

subsection \<open>The syntax tree\<close>

text \<open>
  The parser and the traversal are Babel's. The tree is modelled with the node kinds the
  visitors of \<open>read.js\<close> look at, each with the fields they read; a node of any other kind is
  \<open>OtherNode\<close> with its child nodes in traversal order. \<open>loc\<close> is \<open>node.loc\<close>, absent
  where the code's \<open>node.loc?.\<close> would find none.
\<close>

record loc =
  loc_start_line :: int
  loc_start_column :: int
  loc_end_line :: int

datatype import_specifier =
    ImportDefaultSpecifier string
  | ImportSpecifier "string option"
  | ImportNamespaceSpecifier string

datatype export_specifier =
    ExportSpecifier "string option"
  | OtherExportSpecifier

text \<open>
  Fields, in order: \<open>Identifier name\<close>; \<open>StringLiteral value\<close>;
  \<open>ArrowFunctionExpression async params body\<close>; \<open>FunctionExpression id async params body\<close>;
  \<open>FunctionDeclaration id async params body loc\<close>; \<open>VariableDeclaration declarations\<close>;
  \<open>VariableDeclarator id init loc\<close>; \<open>ClassDeclaration id superClass body.body loc\<close>;
  \<open>ClassMethod key async static params body loc\<close>; \<open>CallExpression callee arguments loc\<close>;
  \<open>ImportDeclaration specifiers source.value loc\<close>;
  \<open>ExportNamedDeclaration declaration specifiers loc\<close>;
  \<open>ExportDefaultDeclaration declaration loc\<close>. An \<open>id\<close> that is an identifier or \<open>null\<close>
  is the optional name; the \<open>imported\<close> and \<open>exported\<close> of a specifier are the name when
  they are identifiers.
\<close>

datatype node =
    Identifier string
  | StringLiteral string
  | ArrowFunctionExpression bool "node list" node
  | FunctionExpression "string option" bool "node list" node
  | FunctionDeclaration "string option" bool "node list" node "loc option"
  | VariableDeclaration "node list"
  | VariableDeclarator node "node option" "loc option"
  | ClassDeclaration "string option" "node option" "node list" "loc option"
  | ClassMethod node bool bool "node list" node "loc option"
  | CallExpression node "node list" "loc option"
  | ImportDeclaration "import_specifier list" string "loc option"
  | ExportNamedDeclaration "node option" "export_specifier list" "loc option"
  | ExportDefaultDeclaration node "loc option"
  | OtherNode "node list"

text \<open>The child nodes in the order of Babel's visitor keys.\<close>

fun children :: "node \<Rightarrow> node list" where
  "children (Identifier nm) = []"
| "children (StringLiteral v) = []"
| "children (ArrowFunctionExpression a ps b) = ps @ [b]"
| "children (FunctionExpression i a ps b) = ps @ [b]"
| "children (FunctionDeclaration i a ps b l) = ps @ [b]"
| "children (VariableDeclaration ds) = ds"
| "children (VariableDeclarator i init l) = i # (case init of None \<Rightarrow> [] | Some e \<Rightarrow> [e])"
| "children (ClassDeclaration i superClass ms l) = (case superClass of None \<Rightarrow> [] | Some e \<Rightarrow> [e]) @ ms"
| "children (ClassMethod k a s ps b l) = k # ps @ [b]"
| "children (CallExpression c args l) = c # args"
| "children (ImportDeclaration specs src l) = []"
| "children (ExportNamedDeclaration d specs l) = (case d of None \<Rightarrow> [] | Some e \<Rightarrow> [e])"
| "children (ExportDefaultDeclaration d l) = [d]"
| "children (OtherNode cs) = cs"

lemma children_smaller: "c \<in> set (children n) \<Longrightarrow> size c < size n"
  by (cases n) (auto split: option.splits dest: size_list_estimation' [where f = size, OF _ order_refl])

text \<open>
  A path is a node with its parent (\<open>path.node\<close>, \<open>path.parent\<close>). \<open>paths_below\<close> lists the
  paths of the subtree of a node in the order the traversal enters them: depth first, a node
  before its children.
\<close>

type_synonym path = "node \<times> node"

function paths_from :: "node \<Rightarrow> node \<Rightarrow> path list" where
  "paths_from parent n = (n, parent) # concat (map (paths_from n) (children n))"
  by pat_completeness auto
termination
  by (relation "measure (\<lambda>(parent, n). size n)") (auto dest: children_smaller)

declare paths_from.simps [simp del]

definition paths_below :: "node \<Rightarrow> path list" where
  "paths_below root = concat (map (paths_from root) (children root))"

text \<open>
  \<open>traverse(ast, visitors)\<close>: the visitor is called on every path below the root in that
  order, threading the state its closures mutate, until one call ends with \<open>path.stop()\<close>.
\<close>

fun run_visitor :: "(path \<Rightarrow> 's \<Rightarrow> 's \<times> bool) \<Rightarrow> path list \<Rightarrow> 's \<Rightarrow> 's" where
  "run_visitor visit [] s = s"
| "run_visitor visit (p # ps) s =
     (case visit p s of (s', stopped) \<Rightarrow> if stopped then s' else run_visitor visit ps s')"

definition traverseFn :: "node \<Rightarrow> (path \<Rightarrow> 's \<Rightarrow> 's \<times> bool) \<Rightarrow> 's \<Rightarrow> 's" where
  "traverseFn ast visit s = run_visitor visit (paths_below ast) s"

text \<open>\<open>node.loc?.start.line || 0\<close>, \<open>node.loc?.start.column || 0\<close>, \<open>node.loc?.end.line || start\<close>.\<close>

definition start_line_of :: "loc option \<Rightarrow> int" where
  "start_line_of l = (case l of None \<Rightarrow> 0 | Some x \<Rightarrow> num_or (loc_start_line x) 0)"

definition start_column_of :: "loc option \<Rightarrow> int" where
  "start_column_of l = (case l of None \<Rightarrow> 0 | Some x \<Rightarrow> num_or (loc_start_column x) 0)"

definition end_line_of :: "loc option \<Rightarrow> int \<Rightarrow> int" where
  "end_line_of l start = (case l of None \<Rightarrow> start | Some x \<Rightarrow> num_or (loc_end_line x) start)"

subsection \<open>Signatures\<close>

definition param_names :: "node list \<Rightarrow> string" where
  "param_names ps =
     join_with '', '' (map (\<lambda>p. case p of Identifier nm \<Rightarrow> nm | _ \<Rightarrow> ''...'') ps)"

fun getFunctionSignature :: "node \<Rightarrow> string" where
  "getFunctionSignature (ArrowFunctionExpression a ps b) =
     (if a then ''async '' else []) @ ''('' @ param_names ps @ '') => {...}''"
| "getFunctionSignature (FunctionExpression i a ps b) =
     (if a then ''async '' else []) @ ''function '' @ (case i of None \<Rightarrow> [] | Some nm \<Rightarrow> nm)
       @ ''('' @ param_names ps @ '')''"
| "getFunctionSignature (FunctionDeclaration i a ps b l) =
     (if a then ''async '' else []) @ ''function '' @ (case i of None \<Rightarrow> [] | Some nm \<Rightarrow> nm)
       @ ''('' @ param_names ps @ '')''"
| "getFunctionSignature other = []"

fun getMethodSignature :: "node \<Rightarrow> string" where
  "getMethodSignature (ClassMethod k a s ps b l) =
     (if s then ''static '' else []) @ (if a then ''async '' else [])
       @ (case k of Identifier nm \<Rightarrow> nm | _ \<Rightarrow> ''unknown'') @ ''('' @ param_names ps @ '')''"
| "getMethodSignature other = []"

subsection \<open>The outline\<close>

record method_info =
  mi_name :: string
  mi_line :: int
  mi_async :: bool
  mi_static :: bool
  mi_signature :: string

record class_info =
  ci_name :: string
  ci_line :: int
  ci_column :: int
  ci_methods :: "method_info list"
  ci_extends :: "string option"
  ci_jsdoc :: "string option"

record import_info =
  ii_source :: string
  ii_imported :: "string list"
  ii_line :: int
  ii_raw :: jsstring

datatype export_type = named | default_export

record export_info =
  ei_type :: export_type
  ei_name :: "string option"
  ei_line :: int
  ei_raw :: jsstring

text \<open>The four arrays and the set \<open>classBodyLines\<close> that the visitors of \<open>readOutline\<close> fill.\<close>

record outline_state =
  os_functions :: "function_info list"
  os_classes :: "class_info list"
  os_imports :: "import_info list"
  os_exports :: "export_info list"
  os_classBodyLines :: "int set"

definition outline_init :: outline_state where
  "outline_init = \<lparr>os_functions = [], os_classes = [], os_imports = [], os_exports = [],
                    os_classBodyLines = {}\<rparr>"

text \<open>\<open>String.prototype.trim\<close>: white space and line terminators of ECMAScript.\<close>

definition is_js_space :: "16 word \<Rightarrow> bool" where
  "is_js_space c =
     (c \<in> {9, 10, 11, 12, 13, 32, 160, 5760, 8232, 8233, 8239, 8287, 12288, 65279}
      \<or> (8192 \<le> c \<and> c \<le> 8202))"

definition trim :: "jsstring \<Rightarrow> jsstring" where
  "trim s = rev (dropWhile is_js_space (rev (dropWhile is_js_space s)))"

text \<open>\<open>content.split("\n")[i]?.trim() || ""\<close>: an index outside the array reads \<open>undefined\<close>.\<close>

definition raw_line :: "jsstring \<Rightarrow> int \<Rightarrow> jsstring" where
  "raw_line content i =
     (let ls = split_lines content in
      if 0 \<le> i \<and> i < int (length ls) then trim (ls ! nat i) else [])"

text \<open>
  The tests of \<open>@babel/types\<close> that the visitors use, and the fields read after them:
  \<open>t.isIdentifier(x)\<close> with \<open>x.name\<close>, \<open>t.isArrowFunctionExpression\<close>,
  \<open>t.isFunctionExpression\<close>, and \<open>node.init.async\<close>.
\<close>

definition identifier_name :: "node \<Rightarrow> string option" where
  "identifier_name n = (case n of Identifier nm \<Rightarrow> Some nm | _ \<Rightarrow> None)"

definition isArrowFunctionExpression :: "node \<Rightarrow> bool" where
  "isArrowFunctionExpression n = (case n of ArrowFunctionExpression a ps b \<Rightarrow> True | _ \<Rightarrow> False)"

definition isFunctionExpression :: "node \<Rightarrow> bool" where
  "isFunctionExpression n = (case n of FunctionExpression i a ps b \<Rightarrow> True | _ \<Rightarrow> False)"

definition async_of :: "node \<Rightarrow> bool" where
  "async_of n =
     (case n of
        ArrowFunctionExpression a ps b \<Rightarrow> a
      | FunctionExpression i a ps b \<Rightarrow> a
      | FunctionDeclaration i a ps b l \<Rightarrow> a
      | ClassMethod k a s ps b l \<Rightarrow> a
      | _ \<Rightarrow> False)"

text \<open>
  The visitors of \<open>readOutline\<close>, one definition for each key of the visitor object; each
  is called on the paths whose node has the kind it is named after. \<open>jsdoc\<close> is
  \<open>extractJSDoc\<close> of \<open>shared.js\<close>.
\<close>

definition outline_FunctionDeclaration ::
  "(node \<Rightarrow> string option) \<Rightarrow> path \<Rightarrow> outline_state \<Rightarrow> outline_state" where
  "outline_FunctionDeclaration jsdoc pth st =
     (case fst pth of
        FunctionDeclaration (Some nm) a ps b l \<Rightarrow>
          (let line = start_line_of l in
           if line \<in> os_classBodyLines st then st
           else st\<lparr>os_functions := os_functions st @
                  [\<lparr>fn_name = nm, fn_line = line, fn_column = start_column_of l,
                    fn_async = a, fn_signature = getFunctionSignature (fst pth),
                    fn_type = function_declaration, fn_jsdoc = jsdoc (fst pth)\<rparr>]\<rparr>)
      | _ \<Rightarrow> st)"

definition outline_VariableDeclarator ::
  "(node \<Rightarrow> string option) \<Rightarrow> path \<Rightarrow> outline_state \<Rightarrow> outline_state" where
  "outline_VariableDeclarator jsdoc pth st =
     (case fst pth of
        VariableDeclarator i (Some init) l \<Rightarrow>
          (case identifier_name i of
             Some nm \<Rightarrow>
               if isArrowFunctionExpression init \<or> isFunctionExpression init
               then (let line = start_line_of l in
                     if line \<in> os_classBodyLines st then st
                     else st\<lparr>os_functions := os_functions st @
                            [\<lparr>fn_name = nm, fn_line = line, fn_column = start_column_of l,
                              fn_async = async_of init,
                              fn_signature = nm @ '' = '' @ getFunctionSignature init,
                              fn_type = (if isArrowFunctionExpression init then arrow_function
                                         else function_expression),
                              fn_jsdoc = jsdoc (fst pth)\<rparr>]\<rparr>)
               else st
           | None \<Rightarrow> st)
      | _ \<Rightarrow> st)"

definition method_of_member :: "node \<Rightarrow> method_info list" where
  "method_of_member member =
     (case member of
        ClassMethod k a s ps b l \<Rightarrow>
          (case identifier_name k of
             Some nm \<Rightarrow>
               [\<lparr>mi_name = nm, mi_line = start_line_of l, mi_async = a, mi_static = s,
                 mi_signature = getMethodSignature member\<rparr>]
           | None \<Rightarrow> [])
      | _ \<Rightarrow> [])"

definition outline_ClassDeclaration ::
  "(node \<Rightarrow> string option) \<Rightarrow> path \<Rightarrow> outline_state \<Rightarrow> outline_state" where
  "outline_ClassDeclaration jsdoc pth st =
     (case fst pth of
        ClassDeclaration (Some nm) superClass members l \<Rightarrow>
          (let start = start_line_of l;
               end = end_line_of l start
           in st\<lparr>os_classBodyLines := os_classBodyLines st \<union> {start..end},
                 os_classes := os_classes st @
                   [\<lparr>ci_name = nm, ci_line = start, ci_column = start_column_of l,
                     ci_methods = concat (map method_of_member members),
                     ci_extends = (case superClass of
                                     Some s \<Rightarrow> identifier_name s
                                   | None \<Rightarrow> None),
                     ci_jsdoc = jsdoc (fst pth)\<rparr>]\<rparr>)
      | _ \<Rightarrow> st)"

definition imported_name :: "import_specifier \<Rightarrow> string" where
  "imported_name spec =
     (case spec of
        ImportDefaultSpecifier local_name \<Rightarrow> local_name
      | ImportSpecifier imported \<Rightarrow> (case imported of Some nm \<Rightarrow> nm | None \<Rightarrow> ''unknown'')
      | ImportNamespaceSpecifier local_name \<Rightarrow> ''* as '' @ local_name)"

text \<open>The index \<open>node.loc?.start.line ? node.loc.start.line - 1 : 0\<close> of the raw line.\<close>

definition import_raw_index :: "loc option \<Rightarrow> int" where
  "import_raw_index l =
     (case l of
        None \<Rightarrow> 0
      | Some x \<Rightarrow> if loc_start_line x \<noteq> 0 then loc_start_line x - 1 else 0)"

definition outline_ImportDeclaration :: "jsstring \<Rightarrow> path \<Rightarrow> outline_state \<Rightarrow> outline_state" where
  "outline_ImportDeclaration content pth st =
     (case fst pth of
        ImportDeclaration specs src l \<Rightarrow>
          st\<lparr>os_imports := os_imports st @
               [\<lparr>ii_source = src, ii_imported = map imported_name specs,
                 ii_line = start_line_of l,
                 ii_raw = raw_line content (import_raw_index l)\<rparr>]\<rparr>
      | _ \<Rightarrow> st)"

text \<open>
  \<open>require("literal")\<close>: the callee is the identifier \<open>require\<close> and the first argument a
  string literal; the bound name is that of the parent when the parent is a variable
  declarator with an identifier.
\<close>

definition outline_CallExpression :: "jsstring \<Rightarrow> path \<Rightarrow> outline_state \<Rightarrow> outline_state" where
  "outline_CallExpression content pth st =
     (case fst pth of
        CallExpression callee (StringLiteral src # args) l \<Rightarrow>
          (if identifier_name callee = Some ''require''
           then st\<lparr>os_imports := os_imports st @
                  [\<lparr>ii_source = src,
                    ii_imported =
                      [case snd pth of
                         VariableDeclarator v init vl \<Rightarrow>
                           (case identifier_name v of Some nm \<Rightarrow> nm | None \<Rightarrow> ''unknown'')
                       | _ \<Rightarrow> ''unknown''],
                    ii_line = start_line_of l,
                    ii_raw = raw_line content (import_raw_index l)\<rparr>]\<rparr>
           else st)
      | _ \<Rightarrow> st)"

definition named_export :: "jsstring \<Rightarrow> int \<Rightarrow> string \<Rightarrow> export_info" where
  "named_export content line nm =
     \<lparr>ei_type = named, ei_name = Some nm, ei_line = line, ei_raw = raw_line content (line - 1)\<rparr>"

definition exports_of_declarator :: "jsstring \<Rightarrow> int \<Rightarrow> node \<Rightarrow> export_info list" where
  "exports_of_declarator content line decl =
     (case decl of
        VariableDeclarator i init l \<Rightarrow>
          (case identifier_name i of
             Some nm \<Rightarrow> [named_export content line nm]
           | None \<Rightarrow> [])
      | _ \<Rightarrow> [])"

definition exports_of_specifier :: "jsstring \<Rightarrow> int \<Rightarrow> export_specifier \<Rightarrow> export_info list" where
  "exports_of_specifier content line spec =
     (case spec of
        ExportSpecifier (Some nm) \<Rightarrow> [named_export content line nm]
      | _ \<Rightarrow> [])"

definition outline_ExportNamedDeclaration ::
  "jsstring \<Rightarrow> path \<Rightarrow> outline_state \<Rightarrow> outline_state" where
  "outline_ExportNamedDeclaration content pth st =
     (case fst pth of
        ExportNamedDeclaration decl specs l \<Rightarrow>
          (let line = start_line_of l in
           case decl of
             Some d \<Rightarrow>
               (case d of
                  FunctionDeclaration (Some nm) a ps b fl \<Rightarrow>
                    st\<lparr>os_exports := os_exports st @ [named_export content line nm]\<rparr>
                | VariableDeclaration decls \<Rightarrow>
                    st\<lparr>os_exports := os_exports st @
                         concat (map (exports_of_declarator content line) decls)\<rparr>
                | ClassDeclaration (Some nm) superClass ms cl \<Rightarrow>
                    st\<lparr>os_exports := os_exports st @ [named_export content line nm]\<rparr>
                | _ \<Rightarrow> st)
           | None \<Rightarrow>
               st\<lparr>os_exports := os_exports st @
                    concat (map (exports_of_specifier content line) specs)\<rparr>)
      | _ \<Rightarrow> st)"

definition outline_ExportDefaultDeclaration ::
  "jsstring \<Rightarrow> path \<Rightarrow> outline_state \<Rightarrow> outline_state" where
  "outline_ExportDefaultDeclaration content pth st =
     (case fst pth of
        ExportDefaultDeclaration decl l \<Rightarrow>
          (let line = start_line_of l in
           st\<lparr>os_exports := os_exports st @
                [\<lparr>ei_type = default_export,
                  ei_name = (case decl of
                               FunctionDeclaration i a ps b fl \<Rightarrow> i
                             | ClassDeclaration i superClass ms cl \<Rightarrow> i
                             | Identifier nm \<Rightarrow> Some nm
                             | _ \<Rightarrow> None),
                  ei_line = line, ei_raw = raw_line content (line - 1)\<rparr>]\<rparr>)
      | _ \<Rightarrow> st)"

text \<open>The traversal calls the visitor that is registered for the kind of the node.\<close>

definition outline_visit ::
  "(node \<Rightarrow> string option) \<Rightarrow> jsstring \<Rightarrow> path \<Rightarrow> outline_state \<Rightarrow> outline_state" where
  "outline_visit jsdoc content pth st =
     (case fst pth of
        FunctionDeclaration i a ps b l \<Rightarrow> outline_FunctionDeclaration jsdoc pth st
      | VariableDeclarator i init l \<Rightarrow> outline_VariableDeclarator jsdoc pth st
      | ClassDeclaration i superClass members l \<Rightarrow> outline_ClassDeclaration jsdoc pth st
      | ImportDeclaration specs src l \<Rightarrow> outline_ImportDeclaration content pth st
      | CallExpression callee args l \<Rightarrow> outline_CallExpression content pth st
      | ExportNamedDeclaration decl specs l \<Rightarrow> outline_ExportNamedDeclaration content pth st
      | ExportDefaultDeclaration decl l \<Rightarrow> outline_ExportDefaultDeclaration content pth st
      | _ \<Rightarrow> st)"

text \<open>
  What \<open>read.js\<close> takes from outside: the file system (\<open>fs.existsSync\<close>,
  \<open>fs.readFileSync\<close>, which may throw), Babel's \<open>parser.parse\<close> with the plugin list it is
  given (it returns the \<open>File\<close> node or throws), and \<open>detectLanguage\<close> and \<open>extractJSDoc\<close>
  of \<open>shared.js\<close>.
\<close>

datatype fs_entry = RegularFile "byte list" | Unreadable js_error

record platform =
  pf_files :: "string \<Rightarrow> fs_entry option"
  pf_parse :: "jsstring \<Rightarrow> string list \<Rightarrow> js_error + node"
  pf_detectLanguage :: "string \<Rightarrow> string"
  pf_extractJSDoc :: "node \<Rightarrow> string option"

record outline_structure =
  st_functions :: "function_info list"
  st_classes :: "class_info list"
  st_imports :: "import_info list"
  st_exports :: "export_info list"

record stats =
  function_count :: int
  class_count :: int
  import_count :: int
  export_count :: int

record outline_result =
  or_file_path :: string
  or_language :: string
  or_structure :: outline_structure
  or_stats :: stats
  or_summary :: "message option"

record outline_failure =
  of_error :: message
  of_error_type :: string
  of_file_path :: string
  of_hint :: string
  of_partial_structure :: outline_structure

record imports_result =
  ir_imports :: "import_info list"
  ir_summary :: "message option"

record exports_result =
  xr_exports :: "export_info list"
  xr_summary :: "message option"

text \<open>
  What \<open>execute\<close> returns. \<open>success\<close> is the field of that name: \<open>false\<close> in the objects
  built by \<open>createError\<close> and by the \<open>catch\<close> of \<open>readOutline\<close>, \<open>true\<close> in all others.
\<close>

datatype result =
    Failure error_response
  | FullRead full_result
  | LinesRead lines_result
  | OutlineRead outline_result
  | OutlineFailure outline_failure
  | TargetRead target_result
  | ImportsRead imports_result
  | ExportsRead exports_result

fun success :: "result \<Rightarrow> bool" where
  "success (Failure e) = False"
| "success (OutlineFailure e) = False"
| "success other = True"

definition plural :: "int \<Rightarrow> string \<Rightarrow> string" where
  "plural n ending = (if n \<noteq> 1 then ending else [])"

definition outline_plugins :: "string list" where
  "outline_plugins =
     [''jsx'', ''typescript'', ''classProperties'', ''dynamicImport'', ''asyncGenerators'',
      ''objectRestSpread'', ''optionalChaining'', ''nullishCoalescingOperator'']"

definition target_plugins :: "string list" where
  "target_plugins = [''jsx'', ''typescript'', ''classProperties'', ''dynamicImport'']"

text \<open>\<open>error.message || "Unknown error"\<close>.\<close>

definition message_or_unknown :: "js_error \<Rightarrow> string" where
  "message_or_unknown error =
     (if err_message error = [] then ''Unknown error'' else err_message error)"

text \<open>
  \<open>readOutline\<close>. The \<open>try\<close> block is left by an exception only where the parser throws;
  the visitors and \<open>deduplicateFunctions\<close> are total.
\<close>

definition readOutline :: "platform \<Rightarrow> params \<Rightarrow> jsstring \<Rightarrow> string \<Rightarrow> result" where
  "readOutline pf ps content language =
     (case pf_parse pf content outline_plugins of
        Inr ast \<Rightarrow>
          (let st = traverseFn ast
                      (\<lambda>pth s. (outline_visit (pf_extractJSDoc pf) content pth s, False))
                      outline_init;
               uniqueFunctions = deduplicateFunctions (os_functions st);
               counts = \<lparr>function_count = int (length uniqueFunctions),
                         class_count = int (length (os_classes st)),
                         import_count = int (length (os_imports st)),
                         export_count = int (length (os_exports st))\<rparr>
           in OutlineRead
                \<lparr>or_file_path = p_file_path ps,
                 or_language = language,
                 or_structure = \<lparr>st_functions = uniqueFunctions, st_classes = os_classes st,
                                  st_imports = os_imports st, st_exports = os_exports st\<rparr>,
                 or_stats = counts,
                 or_summary =
                   (if p_verbose ps then None
                    else Some
                      [Check, Str '' File analyzed: '',
                       Num (function_count counts),
                       Str ('' function'' @ plural (function_count counts) ''s'' @ '', ''),
                       Num (class_count counts),
                       Str ('' class'' @ plural (class_count counts) ''es'' @ '', ''),
                       Num (import_count counts),
                       Str ('' import'' @ plural (import_count counts) ''s'' @ '', ''),
                       Num (export_count counts),
                       Str ('' export'' @ plural (export_count counts) ''s'')])\<rparr>)
      | Inl error \<Rightarrow>
          (let errorMsg = message_or_unknown error;
               isTraverseError =
                 (js_includes errorMsg ''traverse'' \<or> js_includes errorMsg ''not a function'')
           in OutlineFailure
                \<lparr>of_error = [Str ''Failed to parse file: '', Str errorMsg],
                 of_error_type = err_constructor_name error,
                 of_file_path = p_file_path ps,
                 of_hint =
                   (if isTraverseError
                    then ''Module loading error detected. This is a bug in the MCP server. Please report to developer with this error message.''
                    else getHelpfulHint error),
                 of_partial_structure = \<lparr>st_functions = [], st_classes = [],
                                          st_imports = [], st_exports = []\<rparr>\<rparr>))"

subsection \<open>Target resolution\<close>

text \<open>A class name is truthy when it is present and not the empty string.\<close>

definition truthy :: "string option \<Rightarrow> bool" where
  "truthy c = (c \<noteq> None \<and> c \<noteq> Some [])"

text \<open>
  \<open>node.body.body.find(member => t.isClassMethod(member) && t.isIdentifier(member.key) &&
  member.key.name === targetName)\<close>.
\<close>

definition is_method_named :: "string \<Rightarrow> node \<Rightarrow> bool" where
  "is_method_named targetName member =
     (case member of
        ClassMethod k a s ps b l \<Rightarrow> identifier_name k = Some targetName
      | _ \<Rightarrow> False)"

definition member_loc :: "node \<Rightarrow> loc option" where
  "member_loc member = (case member of ClassMethod k a s ps b l \<Rightarrow> l | _ \<Rightarrow> None)"

text \<open>
  The visitors of \<open>readTarget\<close>, one definition for each key of the visitor object. The
  state is \<open>result\<close> (\<open>found\<close> is set exactly when it is); the flag returned says whether
  the visitor called \<open>path.stop()\<close>. \<open>extract\<close> is the closure \<open>extractCode\<close>.
\<close>

definition target_ClassDeclaration ::
  "(int \<Rightarrow> int \<Rightarrow> target_type \<Rightarrow> string \<Rightarrow> string option \<Rightarrow> target_result)
     \<Rightarrow> string \<Rightarrow> string option \<Rightarrow> string \<Rightarrow> path \<Rightarrow> target_result option
     \<Rightarrow> target_result option \<times> bool" where
  "target_ClassDeclaration extract targetType className targetName pth res =
     (case fst pth of
        ClassDeclaration currentClassName superClass members l \<Rightarrow>
          (if targetType = ''class'' \<and> \<not> truthy className
              \<and> currentClassName = Some targetName
           then (let start = start_line_of l; end = end_line_of l start
                 in (Some (extract start end class_target targetName None), True))
           else
             (case (if (targetType = ''class'' \<or> targetType = ''method'') \<and> truthy className
                       \<and> currentClassName = className
                    then find (is_method_named targetName) members else None) of
                Some method \<Rightarrow>
                  (let start = start_line_of (member_loc method);
                       end = end_line_of (member_loc method) start
                   in (Some (extract start end method_target targetName className), True))
              | None \<Rightarrow>
                  (case (if (targetType = ''method'' \<or> targetType = ''function'')
                            \<and> \<not> truthy className
                         then find (is_method_named targetName) members else None) of
                     Some method \<Rightarrow>
                       (let start = start_line_of (member_loc method);
                            end = end_line_of (member_loc method) start
                        in (Some (extract start end method_target targetName currentClassName),
                            True))
                   | None \<Rightarrow> (res, False))))
      | _ \<Rightarrow> (res, False))"

definition target_FunctionDeclaration ::
  "(int \<Rightarrow> int \<Rightarrow> target_type \<Rightarrow> string \<Rightarrow> string option \<Rightarrow> target_result)
     \<Rightarrow> string \<Rightarrow> string \<Rightarrow> path \<Rightarrow> target_result option
     \<Rightarrow> target_result option \<times> bool" where
  "target_FunctionDeclaration extract targetType targetName pth res =
     (case fst pth of
        FunctionDeclaration i a ps b l \<Rightarrow>
          (if targetType = ''function'' \<and> i = Some targetName
           then (let start = start_line_of l; end = end_line_of l start
                 in (Some (extract start end function_target targetName None), True))
           else (res, False))
      | _ \<Rightarrow> (res, False))"

definition target_VariableDeclarator ::
  "(int \<Rightarrow> int \<Rightarrow> target_type \<Rightarrow> string \<Rightarrow> string option \<Rightarrow> target_result)
     \<Rightarrow> string \<Rightarrow> string \<Rightarrow> path \<Rightarrow> target_result option
     \<Rightarrow> target_result option \<times> bool" where
  "target_VariableDeclarator extract targetType targetName pth res =
     (case fst pth of
        VariableDeclarator i (Some init) l \<Rightarrow>
          (if targetType = ''function'' \<and> identifier_name i = Some targetName
              \<and> (isArrowFunctionExpression init \<or> isFunctionExpression init)
           then (let start = start_line_of l; end = end_line_of l start
                 in (Some (extract start end function_target targetName None), True))
           else (res, False))
      | _ \<Rightarrow> (res, False))"

definition target_visit ::
  "(int \<Rightarrow> int \<Rightarrow> target_type \<Rightarrow> string \<Rightarrow> string option \<Rightarrow> target_result)
     \<Rightarrow> string \<Rightarrow> string option \<Rightarrow> string \<Rightarrow> path \<Rightarrow> target_result option
     \<Rightarrow> target_result option \<times> bool" where
  "target_visit extract targetType className targetName pth res =
     (case fst pth of
        ClassDeclaration i superClass members l \<Rightarrow>
          target_ClassDeclaration extract targetType className targetName pth res
      | FunctionDeclaration i a ps b l \<Rightarrow>
          target_FunctionDeclaration extract targetType targetName pth res
      | VariableDeclarator i init l \<Rightarrow>
          target_VariableDeclarator extract targetType targetName pth res
      | _ \<Rightarrow> (res, False))"

definition not_found_hint :: "string \<Rightarrow> string option \<Rightarrow> string \<Rightarrow> message" where
  "not_found_hint targetType className targetName =
     (if targetType = ''function'' \<or> targetType = ''method''
      then [Str ''Method '', Str (quoted targetName),
            Str '' not found. If it's a class method, try:\<newline>  '', Bullet, Str '' '',
            Str (quoted (''class:ClassName.'' @ targetName)),
            Str '' (if you know the class name)\<newline>  '', Bullet, Str '' '',
            Str (quoted (''method:'' @ targetName)),
            Str '' (to search all classes)\<newline>  '', Bullet,
            Str '' Use mode='outline' to see all available methods'']
      else if targetType = ''class'' \<and> truthy className
      then [Str ''Method '', Str (quoted targetName), Str '' not found in class '',
            Str (quoted (case className of Some c \<Rightarrow> c | None \<Rightarrow> [])),
            Str ''.\<newline>Use mode='outline' to see all methods in this class.'']
      else [Str ''Try using mode='outline' first to see available entities''])"

text \<open>
  The summary that \<open>readTarget\<close> adds to a result when \<open>verbose\<close> is \<open>false\<close>.
\<close>

definition target_summary :: "target_result \<Rightarrow> message" where
  "target_summary res =
     (let lineCount = tr_end_line res - tr_line res + 1;
          entityType = (case tr_target_type res of
                          class_target \<Rightarrow> ''class''
                        | method_target \<Rightarrow> ''method''
                        | function_target \<Rightarrow> ''function'');
          entityName = (case tr_class_name res of
                          Some c \<Rightarrow> c @ ''.'' @ tr_target_name res
                        | None \<Rightarrow> tr_target_name res)
      in [Check, Str '' Extracted '', Str entityType, Str '' '', Str (quoted entityName),
          Str '' ('', Num lineCount, Str ('' line'' @ plural lineCount ''s'' @ '')'')])"

definition with_summary :: "params \<Rightarrow> target_result \<Rightarrow> target_result" where
  "with_summary ps res =
     (if p_verbose ps then res else res\<lparr>tr_summary := Some (target_summary res)\<rparr>)"

text \<open>
  The second half of \<open>readTarget\<close>, from the comment "Parse target path" on: the class and
  member names, the parse, the traversal and the result or the \<open>TARGET_NOT_FOUND\<close> error.
\<close>

definition resolve_target ::
  "platform \<Rightarrow> params \<Rightarrow> string \<Rightarrow> string \<Rightarrow> jsstring \<Rightarrow> result" where
  "resolve_target pf ps targetType targetPath content =
     (let parts = split_on (CHR ''.'') targetPath;
          className = (if CHR ''.'' \<in> set targetPath then Some (hd parts) else None);
          targetName = (if CHR ''.'' \<in> set targetPath then hd (tl parts) else targetPath)
      in
      case pf_parse pf content target_plugins of
        Inl error \<Rightarrow>
          Failure (createError [Str ''Failed to extract target: '', Str (err_message error)]
                     (err_constructor_name error) (p_file_path ps) (p_mode ps) None)
      | Inr ast \<Rightarrow>
          (let ls = split_lines content;
               contextLines = num_or (p_contextLines ps) 5;
               extract = extractCode ls contextLines (p_context ps)
           in
           case traverseFn ast (target_visit extract targetType className targetName) None of
             Some res \<Rightarrow> TargetRead (with_summary ps res)
           | None \<Rightarrow>
               Failure (createError
                          [Str targetType, Str '' '', Str (quoted targetPath),
                           Str '' not found in file'']
                          ''TARGET_NOT_FOUND'' (p_file_path ps) (p_mode ps)
                          (Some (not_found_hint targetType className targetName)))))"

text \<open>
  \<open>readTarget\<close>; \<open>tgt\<close> is \<open>params.target\<close>, which \<open>execute\<close> has found to be truthy.
\<close>

definition readTarget :: "platform \<Rightarrow> params \<Rightarrow> string \<Rightarrow> jsstring \<Rightarrow> string \<Rightarrow> result" where
  "readTarget pf ps tgt content language =
     (let targetParts = split_on (CHR '':'') tgt;
          targetType = hd targetParts;
          targetPath = (case targetParts of t # pth # rest \<Rightarrow> pth | _ \<Rightarrow> [])
      in
      if targetType = ''imports'' then
        (case readOutline pf ps content language of
           OutlineRead out \<Rightarrow>
             (let importsCount = int (length (st_imports (or_structure out))) in
              ImportsRead
                \<lparr>ir_imports = st_imports (or_structure out),
                 ir_summary =
                   (if p_verbose ps then None
                    else Some [Check, Str '' Found '', Num importsCount,
                               Str ('' import'' @ plural importsCount ''s'')])\<rparr>)
         | other \<Rightarrow> other)
      else if targetType = ''exports'' then
        (case readOutline pf ps content language of
           OutlineRead out \<Rightarrow>
             (let exportsCount = int (length (st_exports (or_structure out))) in
              ExportsRead
                \<lparr>xr_exports = st_exports (or_structure out),
                 xr_summary =
                   (if p_verbose ps then None
                    else Some [Check, Str '' Found '', Num exportsCount,
                               Str ('' export'' @ plural exportsCount ''s'')])\<rparr>)
         | other \<Rightarrow> other)
      else resolve_target pf ps targetType targetPath content)"

subsection \<open>The entry point\<close>

text \<open>
  \<open>execute\<close>, on the request the schema has accepted. \<open>!params.line\<close> holds for an absent
  line and for the line \<open>0\<close>; \<open>!params.target\<close> for an absent target and for the empty
  string. An exception of \<open>fs.readFileSync\<close> is turned into an error response by the outer
  \<open>catch\<close>.
\<close>

definition missing_line :: "params \<Rightarrow> error_response" where
  "missing_line ps =
     createError [Str (''line parameter required when mode='' @ quoted ''lines'')]
       ''MISSING_LINE'' (p_file_path ps) (p_mode ps) None"

definition missing_target :: "params \<Rightarrow> error_response" where
  "missing_target ps =
     createError [Str (''target parameter required when mode='' @ quoted ''target'')]
       ''MISSING_TARGET'' (p_file_path ps) (p_mode ps) None"

definition execute :: "platform \<Rightarrow> params \<Rightarrow> result" where
  "execute pf ps =
     (case pf_files pf (p_file_path ps) of
        None \<Rightarrow>
          Failure (createError [Str ''File not found: '', Str (p_file_path ps)]
                     ''FILE_NOT_FOUND'' (p_file_path ps) (p_mode ps) None)
      | Some (Unreadable error) \<Rightarrow>
          Failure (createError [Str (message_or_unknown error)] (err_constructor_name error)
                     (p_file_path ps) (p_mode ps) (Some [Str (getHelpfulHint error)]))
      | Some (RegularFile bytes) \<Rightarrow>
          (let content = utf8_decode bytes;
               language = pf_detectLanguage pf (p_file_path ps)
           in
           case p_mode ps of
             full \<Rightarrow> FullRead (readFull (p_file_path ps) content)
           | outline \<Rightarrow> readOutline pf ps content language
           | lines \<Rightarrow>
               (case p_line ps of
                  None \<Rightarrow> Failure (missing_line ps)
                | Some targetLine \<Rightarrow>
                    if targetLine = 0 then Failure (missing_line ps)
                    else (case readLines ps targetLine content of
                            Inl e \<Rightarrow> Failure e
                          | Inr r \<Rightarrow> LinesRead r))
           | target \<Rightarrow>
               (case p_target ps of
                  None \<Rightarrow> Failure (missing_target ps)
                | Some tgt \<Rightarrow>
                    if tgt = [] then Failure (missing_target ps)
                    else readTarget pf ps tgt content language)))"

subsection \<open>Notions used to state the properties\<close>

text \<open>The machine-readable kind of an error response.\<close>

definition is_error :: "string \<Rightarrow> result \<Rightarrow> bool" where
  "is_error kind r =
     (case r of
        Failure e \<Rightarrow> er_error_type e = kind
      | OutlineFailure e \<Rightarrow> of_error_type e = kind
      | _ \<Rightarrow> False)"

text \<open>Lines \<open>a\<close> through \<open>b\<close> of a file, numbered from 1, both ends included.\<close>

definition lines_from_to :: "jsstring list \<Rightarrow> int \<Rightarrow> int \<Rightarrow> jsstring list" where
  "lines_from_to ls a b = map (\<lambda>i. ls ! nat (i - 1)) [a..b]"


text \<open>The functions of a successful outline.\<close>

definition outline_functions :: "result \<Rightarrow> function_info list" where
  "outline_functions r =
     (case r of OutlineRead out \<Rightarrow> st_functions (or_structure out) | _ \<Rightarrow> [])"

text \<open>
  A node that the outline records as a function: a function declaration with a name, or a
  variable declarator that binds an identifier to an arrow function or a function
  expression. \<open>node_loc\<close> is the \<open>loc\<close> of a node that carries one.
\<close>

definition is_function_shaped :: "node \<Rightarrow> bool" where
  "is_function_shaped n =
     (case n of
        FunctionDeclaration i a ps b l \<Rightarrow> i \<noteq> None
      | VariableDeclarator i init l \<Rightarrow>
          identifier_name i \<noteq> None
          \<and> (case init of
                 Some e \<Rightarrow> isArrowFunctionExpression e \<or> isFunctionExpression e
               | None \<Rightarrow> False)
      | _ \<Rightarrow> False)"

definition node_loc :: "node \<Rightarrow> loc option" where
  "node_loc n =
     (case n of
        FunctionDeclaration i a ps b l \<Rightarrow> l
      | VariableDeclarator i init l \<Rightarrow> l
      | ClassDeclaration i superClass ms l \<Rightarrow> l
      | ClassMethod k a s ps b l \<Rightarrow> l
      | CallExpression c args l \<Rightarrow> l
      | ImportDeclaration specs src l \<Rightarrow> l
      | ExportNamedDeclaration d specs l \<Rightarrow> l
      | ExportDefaultDeclaration d l \<Rightarrow> l
      | _ \<Rightarrow> None)"

text \<open>The first and the last line of a class declaration that has a name.\<close>

definition named_class_span :: "node \<Rightarrow> (int \<times> int) option" where
  "named_class_span n =
     (case n of
        ClassDeclaration (Some nm) superClass ms l \<Rightarrow>
          Some (start_line_of l, end_line_of l (start_line_of l))
      | _ \<Rightarrow> None)"



subsection \<open>Sample files\<close>

definition at_lines :: "int \<Rightarrow> int \<Rightarrow> int \<Rightarrow> loc option" where
  "at_lines s c e = Some \<lparr>loc_start_line = s, loc_start_column = c, loc_end_line = e\<rparr>"

text \<open>An expression statement that is one identifier.\<close>

definition stmt :: "string \<Rightarrow> node" where
  "stmt nm = OtherNode [Identifier nm]"

text \<open>Ten lines, with the function \<open>f\<close> on lines 5 and 6.\<close>

definition ten_text :: string where
  "ten_text = ''a\<newline>b\<newline>c\<newline>d\<newline>function f(){\<newline>}\<newline>g\<newline>h\<newline>i\<newline>j''"

definition ten_ast :: node where
  "ten_ast =
     OtherNode [OtherNode
       [stmt ''a'', stmt ''b'', stmt ''c'', stmt ''d'',
        FunctionDeclaration (Some ''f'') False [] (OtherNode []) (at_lines 5 0 6),
        stmt ''g'', stmt ''h'', stmt ''i'', stmt ''j'']]"

text \<open>One line: a class and a function after it.\<close>

definition one_text :: string where
  "one_text = ''class C {} function f(){}''"

definition one_class :: node where
  "one_class = ClassDeclaration (Some ''C'') None [] (at_lines 1 0 1)"

definition one_function :: node where
  "one_function = FunctionDeclaration (Some ''f'') False [] (OtherNode []) (at_lines 1 11 1)"

definition one_program :: node where
  "one_program = OtherNode [one_class, one_function]"

definition one_ast :: node where
  "one_ast = OtherNode [one_program]"

text \<open>A class with a method \<open>foo\<close>, then a top-level function \<open>foo\<close>.\<close>

definition shadow_text :: string where
  "shadow_text = ''class A {\<newline>  foo() {}\<newline>}\<newline>function foo() {}''"

definition shadow_method :: node where
  "shadow_method =
     ClassMethod (Identifier ''foo'') False False [] (OtherNode []) (at_lines 2 2 2)"

definition shadow_class :: node where
  "shadow_class = ClassDeclaration (Some ''A'') None [shadow_method] (at_lines 1 0 3)"

definition shadow_function :: node where
  "shadow_function =
     FunctionDeclaration (Some ''foo'') False [] (OtherNode []) (at_lines 4 0 4)"

definition shadow_program :: node where
  "shadow_program = OtherNode [shadow_class, shadow_function]"

definition shadow_ast :: node where
  "shadow_ast = OtherNode [shadow_program]"

text \<open>One line again: a default-exported class without a name, and a function after it.\<close>

definition anon_text :: string where
  "anon_text = ''export default class {} function f(){}''"

definition anon_class :: node where
  "anon_class = ClassDeclaration None None [] (at_lines 1 15 1)"

definition anon_export :: node where
  "anon_export = ExportDefaultDeclaration anon_class (at_lines 1 0 1)"

definition anon_function :: node where
  "anon_function = FunctionDeclaration (Some ''f'') False [] (OtherNode []) (at_lines 1 24 1)"

definition anon_program :: node where
  "anon_program = OtherNode [anon_export, anon_function]"

definition anon_ast :: node where
  "anon_ast = OtherNode [anon_program]"

text \<open>A text that does not parse, and a comment with one letter outside ASCII.\<close>

definition broken_text :: string where
  "broken_text = ''function {''"

definition accent_bytes :: "byte list" where
  "accent_bytes = [0x2F, 0x2F, 0x20, 0xC3, 0xA9]"

definition sample_files :: "string \<Rightarrow> fs_entry option" where
  "sample_files =
     map_of [(''/ten.js'', RegularFile (map of_char ten_text)),
             (''/one.js'', RegularFile (map of_char one_text)),
             (''/shadow.js'', RegularFile (map of_char shadow_text)),
             (''/broken.js'', RegularFile (map of_char broken_text)),
             (''/accent.js'', RegularFile accent_bytes),
             (''/anon.js'', RegularFile (map of_char anon_text))]"

definition sample_parse :: "jsstring \<Rightarrow> string list \<Rightarrow> js_error + node" where
  "sample_parse content plugins =
     (case map_of [(ascii ten_text, ten_ast), (ascii one_text, one_ast),
                   (ascii shadow_text, shadow_ast), (ascii anon_text, anon_ast)] content of
        Some ast \<Rightarrow> Inr ast
      | None \<Rightarrow> Inl \<lparr>err_message = ''Unexpected token (1:9)'',
                      err_constructor_name = ''SyntaxError''\<rparr>)"

definition sample_platform :: platform where
  "sample_platform =
     \<lparr>pf_files = sample_files, pf_parse = sample_parse,
      pf_detectLanguage = (\<lambda>p. ''javascript''), pf_extractJSDoc = (\<lambda>n. None)\<rparr>"

text \<open>A request with the defaults of the schema.\<close>

definition request :: "string \<Rightarrow> read_mode \<Rightarrow> params" where
  "request filePath md =
     \<lparr>p_file_path = filePath, p_mode = md, p_target = None, p_line = None,
      p_linesAbove = 10, p_linesBelow = 10, p_context = True, p_contextLines = 5,
      p_show_calls = False, p_show_dependencies = False, p_verbose = True\<rparr>"



definition arrow_f :: function_info where
  "arrow_f =
     \<lparr>fn_name = ''f'', fn_line = 1, fn_column = 6, fn_async = False,
      fn_signature = ''f = () => {...}'', fn_type = arrow_function, fn_jsdoc = None\<rparr>"

definition decl_f :: function_info where
  "decl_f =
     \<lparr>fn_name = ''f'', fn_line = 2, fn_column = 15, fn_async = False,
      fn_signature = ''function f()'', fn_type = function_declaration, fn_jsdoc = None\<rparr>"

section \<open>Properties\<close>

lemma dedup_step_reject_keeps_seen:
  "dedup_step seen func = (False, seen') \<Longrightarrow> seen' = seen"
  by (auto simp: dedup_step_def Let_def split: if_splits option.splits prod.splits)

lemma dedup_filter_idem:
  "dedup_filter seen (dedup_filter seen funcs) = dedup_filter seen funcs"
proof (induction funcs arbitrary: seen)
  case Nil
  show ?case by simp
next
  case (Cons func rest)
  obtain keep seen' where step: "dedup_step seen func = (keep, seen')"
    by (cases "dedup_step seen func")
  show ?case
  proof (cases keep)
    case True
    with step Cons.IH [of seen'] show ?thesis by simp
  next
    case False
    with step have "seen' = seen" by (simp add: dedup_step_reject_keeps_seen)
    with step False Cons.IH [of seen] show ?thesis by simp
  qed
qed

text \<open>
  C8. Deduplication is idempotent: running \<open>deduplicateFunctions\<close> on its own output
  returns that output unchanged, for every list of function records.
\<close>

theorem deduplicateFunctions_idempotent:
  "deduplicateFunctions (deduplicateFunctions l) = deduplicateFunctions l"
  by (simp add: deduplicateFunctions_def dedup_filter_idem)

text \<open>
  C2, where the code departs from it. A variable-bound record seen first and a declared
  record of the same name at most two lines away are one entity, and the declared record
  replaces the other in \<open>seen\<close>; but \<open>filter\<close> has already kept the variable-bound record,
  so both are in the output.
\<close>

theorem deduplicateFunctions_keeps_replaced:
  assumes "fn_name e = fn_name f" and "\<bar>fn_line e - fn_line f\<bar> \<le> 2"
    and "fn_type f = function_declaration" and "fn_type e \<noteq> function_declaration"
  shows "deduplicateFunctions [e, f] = [e, f]"
  using assms
  by (auto simp: deduplicateFunctions_def dedup_step_def map_has_def map_set_def
        map_delete_def nearby_def func_key_def Let_def)


text \<open>The two records of \<open>const f = () => 1\<close> on line 1 and a nested \<open>function f\<close> on line 2.\<close>

theorem deduplicateFunctions_keeps_replaced_witness:
  "deduplicateFunctions [arrow_f, decl_f] = [arrow_f, decl_f]
   \<and> fn_type arrow_f = arrow_function \<and> fn_type decl_f = function_declaration
   \<and> fn_name arrow_f = fn_name decl_f \<and> \<bar>fn_line arrow_f - fn_line decl_f\<bar> = 1"
  using deduplicateFunctions_keeps_replaced [of arrow_f decl_f]
  by (simp add: arrow_f_def decl_f_def)


subsection \<open>Facts about the sample files\<close>

lemma of_char_byte_unat: "unat (of_char c :: byte) = of_char c"
proof -
  have lt: "(of_char c :: nat) < 256"
    by (rule nat_of_char_less_256)
  have "unat (of_char c :: byte) = unat (of_nat (of_char c :: nat) :: byte)"
    by (simp add: of_nat_of_char)
  also have "\<dots> = of_char c"
    using lt by (simp add: unat_of_nat)
  finally show ?thesis .
qed

text \<open>Bytes below 128 decode to themselves.\<close>

lemma utf8_decode_ascii:
  "\<forall>c \<in> set s. (of_char c :: nat) < 128 \<Longrightarrow> utf8_decode (map of_char s) = ascii s"
  unfolding utf8_decode_def
  by (induction s)
     (auto simp: ascii_def utf8_lead_def utf8_init_def of_char_byte_unat of_nat_of_char Let_def)

lemma ten_file:
  "pf_files sample_platform ''/ten.js'' = Some (RegularFile (map of_char ten_text))"
  by (simp add: sample_platform_def sample_files_def)

lemma ten_decode: "utf8_decode (map of_char ten_text) = ascii ten_text"
  by (rule utf8_decode_ascii) (simp add: ten_text_def)

lemma ten_split:
  "split_lines (ascii ten_text) =
     map ascii [''a'', ''b'', ''c'', ''d'', ''function f(){'', ''}'', ''g'', ''h'', ''i'', ''j'']"
  by (simp add: ten_text_def ascii_def split_lines_def newline_def)


subsection \<open>Full mode\<close>

text \<open>
  On every existing file, full mode succeeds with the decoded text unchanged and a line count
  of one more than the number of newlines, that is the number of newline-separated segments.
\<close>

lemma split_on_length: "length (split_on sep s) = Suc (length (filter (\<lambda>c. c = sep) s))"
  by (induction s) (auto split: list.splits)

lemma full_mode_result:
  assumes "p_mode ps = full" and "pf_files pf (p_file_path ps) = Some (RegularFile bytes)"
  shows "execute pf ps =
           FullRead \<lparr>fr_file_path = p_file_path ps,
                     fr_line_count =
                       1 + int (length (filter (\<lambda>c. c = newline) (utf8_decode bytes))),
                     fr_size_bytes = int (length (utf8_decode bytes)),
                     fr_content = utf8_decode bytes\<rparr>"
  using assms
  by (simp add: execute_def readFull_def Let_def split_lines_def split_on_length)

text \<open>
  C9, where the code departs from it. On a file of five bytes that holds a two-byte UTF-8
  sequence, full mode succeeds with the decoded text and one line, and reports a size of 4:
  \<open>size_bytes\<close> is \<open>content.length\<close>, the number of UTF-16 code units, not the size of
  the file in bytes.
\<close>

theorem full_mode_size_not_bytes:
  "execute sample_platform (request ''/accent.js'' full) =
     FullRead \<lparr>fr_file_path = ''/accent.js'', fr_line_count = 1, fr_size_bytes = 4,
               fr_content = [47, 47, 32, 233]\<rparr>
   \<and> length accent_bytes = 5"
  by (simp add: execute_def request_def sample_platform_def sample_files_def accent_bytes_def
        readFull_def split_lines_def newline_def Let_def
        utf8_decode_def utf8_lead_def utf8_init_def utf16_units_def)


subsection \<open>Lines mode\<close>

lemma js_slice_lines_from_to:
  assumes "1 \<le> a" "0 \<le> b" "b \<le> int (length ls)"
  shows "js_slice ls (a - 1) b = lines_from_to ls a b"
proof (rule nth_equalityI)
  show len: "length (js_slice ls (a - 1) b) = length (lines_from_to ls a b)"
    using assms by (auto simp: js_slice_def lines_from_to_def Let_def min_def)
  fix i assume "i < length (js_slice ls (a - 1) b)"
  then have i: "i < nat (b - a + 1)" using len by (simp add: lines_from_to_def)
  have idx: "nat (a - 1) + i = nat (a + int i - 1)" using assms by linarith
  have "js_slice ls (a - 1) b ! i = ls ! (nat (a - 1) + i)"
    using assms i by (auto simp: js_slice_def Let_def min_def)
  moreover have "lines_from_to ls a b ! i = ls ! nat (a + int i - 1)"
    using i by (simp add: lines_from_to_def nth_upto)
  ultimately show "js_slice ls (a - 1) b ! i = lines_from_to ls a b ! i"
    using idx by simp
qed

lemma readLines_cases:
  "readLines ps n content =
     (if n < 1 \<or> int (length (split_lines content)) < n
      then Inl (createError
                  [Str ''Line '', Num n, Str '' out of range (file has '',
                   Num (int (length (split_lines content))), Str '' lines)'']
                  ''LINE_OUT_OF_RANGE'' (p_file_path ps) (p_mode ps) None)
      else Inr \<lparr>lr_file_path = p_file_path ps,
                 lr_target_line = n,
                 lr_start_line = max 1 (n - num_or (p_linesAbove ps) 10),
                 lr_end_line = min (int (length (split_lines content)))
                                 (n + num_or (p_linesBelow ps) 10),
                 lr_total_lines = int (length (split_lines content)),
                 lr_lines_above = n - max 1 (n - num_or (p_linesAbove ps) 10),
                 lr_lines_below = min (int (length (split_lines content)))
                                    (n + num_or (p_linesBelow ps) 10) - n,
                 lr_content =
                   join_lines (js_slice (split_lines content)
                     (max 1 (n - num_or (p_linesAbove ps) 10) - 1)
                     (min (int (length (split_lines content)))
                        (n + num_or (p_linesBelow ps) 10))),
                 lr_summary =
                   (if p_verbose ps then None
                    else Some [Check, Str '' Showing line '', Num n, Str '' ('',
                               Num (max 1 (n - num_or (p_linesAbove ps) 10)), Str ''-'',
                               Num (min (int (length (split_lines content)))
                                      (n + num_or (p_linesBelow ps) 10)),
                               Str '' of '',
                               Num (int (length (split_lines content))),
                               Str '' total lines)''])\<rparr>)"
  by (simp add: readLines_def Let_def)

lemma execute_lines:
  assumes "p_mode ps = lines" "pf_files pf (p_file_path ps) = Some (RegularFile bytes)"
  shows "execute pf ps =
     (case p_line ps of
        None \<Rightarrow> Failure (missing_line ps)
      | Some n \<Rightarrow> if n = 0 then Failure (missing_line ps)
                  else (case readLines ps n (utf8_decode bytes) of
                          Inl e \<Rightarrow> Failure e | Inr r \<Rightarrow> LinesRead r))"
  using assms by (simp add: execute_def Let_def)

text \<open>
  C5, as the code has it. For a lines-mode request on an existing file of \<open>L\<close> lines whose
  target line is not \<open>0\<close>: the result is the \<open>MISSING_LINE\<close> error exactly when the request
  omits the target line; it is the \<open>LINE_OUT_OF_RANGE\<close> error exactly when a target line is
  supplied and is below 1 or above \<open>L\<close>; and for a supplied target line in \<open>[1, L]\<close> the
  request succeeds with a clamped slice and the bounds used: the reported bounds satisfy
  \<open>start \<ge> 1\<close> and \<open>end \<le> L\<close> and the content is the slice taken with them, which for
  non-negative counts of lines above and below is exactly the lines \<open>start\<close> through \<open>end\<close>
  with \<open>start \<le> line \<le> end\<close>; and for a count that is not zero \<open>start\<close> is
  \<open>max 1 (line - above)\<close> and \<open>end\<close> is \<open>min L (line + below)\<close>.
\<close>

theorem lines_mode_outcomes:
  assumes "p_mode ps = lines"
    and "pf_files pf (p_file_path ps) = Some (RegularFile bytes)"
    and "p_line ps \<noteq> Some 0"
  shows "(is_error ''MISSING_LINE'' (execute pf ps) \<longleftrightarrow> p_line ps = None)
    \<and> (is_error ''LINE_OUT_OF_RANGE'' (execute pf ps) \<longleftrightarrow>
         (\<exists>n. p_line ps = Some n
            \<and> (n < 1 \<or> int (length (split_lines (utf8_decode bytes))) < n)))
    \<and> (\<forall>n. p_line ps = Some n \<and> 1 \<le> n
            \<and> n \<le> int (length (split_lines (utf8_decode bytes))) \<longrightarrow>
         (\<exists>r. execute pf ps = LinesRead r
            \<and> lr_target_line r = n
            \<and> lr_total_lines r = int (length (split_lines (utf8_decode bytes)))
            \<and> 1 \<le> lr_start_line r
            \<and> lr_end_line r \<le> int (length (split_lines (utf8_decode bytes)))
            \<and> lr_content r =
                join_lines (js_slice (split_lines (utf8_decode bytes))
                              (lr_start_line r - 1) (lr_end_line r))
            \<and> (0 \<le> p_linesAbove ps \<and> 0 \<le> p_linesBelow ps \<longrightarrow>
                 lr_start_line r \<le> n \<and> n \<le> lr_end_line r
                 \<and> lr_content r =
                     join_lines (lines_from_to (split_lines (utf8_decode bytes))
                                   (lr_start_line r) (lr_end_line r)))
            \<and> (p_linesAbove ps \<noteq> 0 \<longrightarrow>
                 lr_start_line r = max 1 (n - p_linesAbove ps))
            \<and> (p_linesBelow ps \<noteq> 0 \<longrightarrow>
                 lr_end_line r = min (int (length (split_lines (utf8_decode bytes))))
                                   (n + p_linesBelow ps))))"
proof (cases "p_line ps")
  case None
  then show ?thesis
    using assms by (simp add: execute_lines is_error_def missing_line_def createError_def)
next
  case (Some n)
  with assms have n0: "n \<noteq> 0" by simp
  let ?ls = "split_lines (utf8_decode bytes)"
  show ?thesis
  proof (cases "n < 1 \<or> int (length ?ls) < n")
    case True
    then show ?thesis
      using Some n0 assms(1,2)
      by (auto simp: execute_lines readLines_cases is_error_def createError_def)
  next
    case False
    let ?s = "max 1 (n - num_or (p_linesAbove ps) 10)"
    let ?e = "min (int (length ?ls)) (n + num_or (p_linesBelow ps) 10)"
    have slice: "js_slice ?ls (?s - 1) ?e = lines_from_to ?ls ?s ?e"
      if "0 \<le> p_linesAbove ps" "0 \<le> p_linesBelow ps"
      using that False by (intro js_slice_lines_from_to) (auto simp: num_or_def)
    have bounds: "?s \<le> n \<and> n \<le> ?e"
      if "0 \<le> p_linesAbove ps" "0 \<le> p_linesBelow ps"
      using that False by (auto simp: num_or_def)
    have clamp: "1 \<le> ?s" "?e \<le> int (length ?ls)" by simp_all
    have above: "?s = max 1 (n - p_linesAbove ps)" if "p_linesAbove ps \<noteq> 0"
      using that by (simp add: num_or_def)
    have below: "?e = min (int (length ?ls)) (n + p_linesBelow ps)" if "p_linesBelow ps \<noteq> 0"
      using that by (simp add: num_or_def)
    have run: "execute pf ps = LinesRead
        \<lparr>lr_file_path = p_file_path ps, lr_target_line = n, lr_start_line = ?s,
         lr_end_line = ?e, lr_total_lines = int (length ?ls), lr_lines_above = n - ?s,
         lr_lines_below = ?e - n, lr_content = join_lines (js_slice ?ls (?s - 1) ?e),
         lr_summary =
           (if p_verbose ps then None
            else Some [Check, Str '' Showing line '', Num n, Str '' ('', Num ?s, Str ''-'',
                       Num ?e, Str '' of '', Num (int (length ?ls)),
                       Str '' total lines)''])\<rparr>"
      using Some n0 assms(1,2) False by (simp add: execute_lines readLines_cases)
    have "\<not> is_error ''MISSING_LINE'' (execute pf ps)"
      "\<not> is_error ''LINE_OUT_OF_RANGE'' (execute pf ps)"
      by (simp_all add: run is_error_def)
    moreover have "\<exists>r. execute pf ps = LinesRead r
            \<and> lr_target_line r = n
            \<and> lr_total_lines r = int (length ?ls)
            \<and> 1 \<le> lr_start_line r
            \<and> lr_end_line r \<le> int (length ?ls)
            \<and> lr_content r = join_lines (js_slice ?ls (lr_start_line r - 1) (lr_end_line r))
            \<and> (0 \<le> p_linesAbove ps \<and> 0 \<le> p_linesBelow ps \<longrightarrow>
                 lr_start_line r \<le> n \<and> n \<le> lr_end_line r
                 \<and> lr_content r =
                     join_lines (lines_from_to ?ls (lr_start_line r) (lr_end_line r)))
            \<and> (p_linesAbove ps \<noteq> 0 \<longrightarrow> lr_start_line r = max 1 (n - p_linesAbove ps))
            \<and> (p_linesBelow ps \<noteq> 0 \<longrightarrow>
                 lr_end_line r = min (int (length ?ls)) (n + p_linesBelow ps))"
      unfolding run using slice bounds clamp above below by simp
    ultimately show ?thesis using Some False by simp
  qed
qed

text \<open>Line 5 of the ten-line file, with one line above and two below.\<close>

theorem lines_mode_outcomes_witness:
  "p_mode ((request ''/ten.js'' lines)\<lparr>p_line := Some 5, p_linesAbove := 1, p_linesBelow := 2\<rparr>) = lines
   \<and> pf_files sample_platform ''/ten.js'' = Some (RegularFile (map of_char ten_text))
   \<and> \<not> is_error ''MISSING_LINE''
         (execute sample_platform
            ((request ''/ten.js'' lines)\<lparr>p_line := Some 5, p_linesAbove := 1, p_linesBelow := 2\<rparr>))
   \<and> \<not> is_error ''LINE_OUT_OF_RANGE''
         (execute sample_platform
            ((request ''/ten.js'' lines)\<lparr>p_line := Some 5, p_linesAbove := 1, p_linesBelow := 2\<rparr>))
   \<and> (\<exists>r. execute sample_platform
              ((request ''/ten.js'' lines)\<lparr>p_line := Some 5, p_linesAbove := 1, p_linesBelow := 2\<rparr>)
            = LinesRead r
          \<and> lr_start_line r = 4 \<and> lr_end_line r = 7
          \<and> lr_content r = ascii ''d\<newline>function f(){\<newline>}\<newline>g'')"
proof -
  let ?ps = "(request ''/ten.js'' lines)\<lparr>p_line := Some 5, p_linesAbove := 1, p_linesBelow := 2\<rparr>"
  have h1: "p_mode ?ps = lines" by (simp add: request_def)
  have h2: "pf_files sample_platform (p_file_path ?ps) = Some (RegularFile (map of_char ten_text))"
    by (simp add: request_def ten_file)
  have h3: "p_line ?ps \<noteq> Some 0" by (simp add: request_def)
  have up: "[4..7] = [4, 5, 6, 7::int]" by (simp add: upto_rec1)
  note main = lines_mode_outcomes [OF h1 h2 h3, unfolded ten_decode ten_split]
  from main have "\<not> is_error ''MISSING_LINE'' (execute sample_platform ?ps)"
    by (simp add: request_def)
  moreover from main have "\<not> is_error ''LINE_OUT_OF_RANGE'' (execute sample_platform ?ps)"
    by (simp add: request_def)
  moreover from main have "\<exists>r. execute sample_platform ?ps = LinesRead r
          \<and> lr_start_line r = 4 \<and> lr_end_line r = 7
          \<and> lr_content r = ascii ''d\<newline>function f(){\<newline>}\<newline>g''"
    by (auto simp: request_def lines_from_to_def up join_lines_def ascii_def newline_def)
  ultimately show ?thesis using h1 ten_file by simp
qed


text \<open>
  C5 as stated fails: the line \<open>-1\<close> is supplied and does not exceed the length of the file,
  and the result is the \<open>LINE_OUT_OF_RANGE\<close> error.
\<close>

theorem lines_mode_negative_line_counterexample:
  "is_error ''LINE_OUT_OF_RANGE''
     (execute sample_platform ((request ''/ten.js'' lines)\<lparr>p_line := Some (- 1)\<rparr>))
   \<and> \<not> int (length (split_lines (utf8_decode (map of_char ten_text)))) < - 1"
  by (simp add: execute_lines [where bytes = "map of_char ten_text"] request_def ten_file
        readLines_cases is_error_def createError_def)


subsection \<open>Outline of a file that does not parse\<close>

lemma getHelpfulHint_nonempty: "getHelpfulHint error \<noteq> []"
  by (simp add: getHelpfulHint_def Let_def)


text \<open>
  C4. When the text of the file does not parse, outline mode returns a result with
  \<open>success = false\<close> that carries the error kind (the name of the exception's class), the
  message, a non-empty hint, and a degraded structure whose four lists are empty. It is
  never a successful outline.
\<close>

theorem outline_parse_failure:
  assumes "p_mode ps = outline"
    and "pf_files pf (p_file_path ps) = Some (RegularFile bytes)"
    and "pf_parse pf (utf8_decode bytes) outline_plugins = Inl error"
  shows "\<exists>f. execute pf ps = OutlineFailure f
           \<and> of_error_type f = err_constructor_name error
           \<and> of_error f = [Str ''Failed to parse file: '', Str (message_or_unknown error)]
           \<and> of_hint f \<noteq> []
           \<and> of_partial_structure f =
               \<lparr>st_functions = [], st_classes = [], st_imports = [], st_exports = []\<rparr>
           \<and> \<not> success (execute pf ps)"
  using assms
  by (simp add: execute_def readOutline_def Let_def getHelpfulHint_nonempty)


text \<open>The file \<open>function {\<close>, on which the parser throws a \<open>SyntaxError\<close>.\<close>

theorem outline_parse_failure_witness:
  "p_mode (request ''/broken.js'' outline) = outline
   \<and> pf_files sample_platform ''/broken.js'' = Some (RegularFile (map of_char broken_text))
   \<and> pf_parse sample_platform (utf8_decode (map of_char broken_text)) outline_plugins
       = Inl \<lparr>err_message = ''Unexpected token (1:9)'', err_constructor_name = ''SyntaxError''\<rparr>
   \<and> (\<exists>f. execute sample_platform (request ''/broken.js'' outline) = OutlineFailure f
           \<and> of_error_type f = ''SyntaxError''
           \<and> of_hint f \<noteq> []
           \<and> of_partial_structure f =
               \<lparr>st_functions = [], st_classes = [], st_imports = [], st_exports = []\<rparr>)
   \<and> \<not> success (execute sample_platform (request ''/broken.js'' outline))"
proof -
  let ?ps = "request ''/broken.js'' outline"
  let ?e = "\<lparr>err_message = ''Unexpected token (1:9)'', err_constructor_name = ''SyntaxError''\<rparr>"
  have h1: "p_mode ?ps = outline" by (simp add: request_def)
  have h2: "pf_files sample_platform (p_file_path ?ps) = Some (RegularFile (map of_char broken_text))"
    by (simp add: request_def sample_platform_def sample_files_def)
  have dec: "utf8_decode (map of_char broken_text) = ascii broken_text"
    by (rule utf8_decode_ascii) (simp add: broken_text_def)
  have h3: "pf_parse sample_platform (utf8_decode (map of_char broken_text)) outline_plugins = Inl ?e"
    unfolding dec
    by (simp add: sample_platform_def sample_parse_def broken_text_def ten_text_def one_text_def
          shadow_text_def anon_text_def ascii_def)
  from outline_parse_failure [OF h1 h2 h3] h1 h2 h3 show ?thesis
    by (auto simp: request_def)
qed

subsection \<open>Target results are extractions\<close>

lemma readOutline_not_TargetRead: "readOutline pf ps content language \<noteq> TargetRead res"
  by (simp add: readOutline_def Let_def split: sum.splits)

text \<open>
  One call of the target visitor on a traversal that has found nothing yet: it either leaves
  the state and goes on, or stops with an extraction; which of the two, and the arguments of
  the extraction, do not depend on the extraction function.
\<close>

lemma target_visit_cases:
  "(target_visit ex1 tt cn tn pth None = (None, False)
      \<and> target_visit ex2 tt cn tn pth None = (None, False))
   \<or> (\<exists>s e ty c. target_visit ex1 tt cn tn pth None = (Some (ex1 s e ty tn c), True)
                 \<and> target_visit ex2 tt cn tn pth None = (Some (ex2 s e ty tn c), True))"
  unfolding target_visit_def target_ClassDeclaration_def target_FunctionDeclaration_def
    target_VariableDeclarator_def Let_def
  by (simp split: node.split option.split) blast

lemma run_visitor_target_cases:
  "(run_visitor (target_visit ex1 tt cn tn) ps None = None
      \<and> run_visitor (target_visit ex2 tt cn tn) ps None = None)
   \<or> (\<exists>s e ty c. run_visitor (target_visit ex1 tt cn tn) ps None = Some (ex1 s e ty tn c)
                 \<and> run_visitor (target_visit ex2 tt cn tn) ps None = Some (ex2 s e ty tn c))"
proof (induction ps)
  case Nil
  show ?case by simp
next
  case (Cons p ps)
  from target_visit_cases [of ex1 tt cn tn p ex2] show ?case
  proof
    assume "target_visit ex1 tt cn tn p None = (None, False)
              \<and> target_visit ex2 tt cn tn p None = (None, False)"
    with Cons.IH show ?thesis by simp
  next
    assume "\<exists>s e ty c. target_visit ex1 tt cn tn p None = (Some (ex1 s e ty tn c), True)
                 \<and> target_visit ex2 tt cn tn p None = (Some (ex2 s e ty tn c), True)"
    then obtain s e ty c
      where "target_visit ex1 tt cn tn p None = (Some (ex1 s e ty tn c), True)"
        and "target_visit ex2 tt cn tn p None = (Some (ex2 s e ty tn c), True)"
      by blast
    then have "run_visitor (target_visit ex1 tt cn tn) (p # ps) None = Some (ex1 s e ty tn c)
        \<and> run_visitor (target_visit ex2 tt cn tn) (p # ps) None = Some (ex2 s e ty tn c)"
      by simp
    then show ?thesis by blast
  qed
qed


text \<open>
  A target result of \<open>readTarget\<close> is an extraction, with or without a summary; and whether
  the target is found, at which lines and under which name, does not depend on
  \<open>contextLines\<close>.
\<close>

lemma with_summary_fields:
  "with_summary ps r = r\<lparr>tr_summary := tr_summary (with_summary ps r)\<rparr>"
  by (simp add: with_summary_def)

lemma resolve_target_TargetRead:
  assumes "resolve_target pf ps tt tp content = TargetRead res"
  shows "\<exists>s e ty tn c.
           res = (extractCode (split_lines content) (num_or (p_contextLines ps) 5)
                    (p_context ps) s e ty tn c)\<lparr>tr_summary := tr_summary res\<rparr>
           \<and> (\<forall>k. \<exists>res'. resolve_target pf (ps\<lparr>p_contextLines := k\<rparr>) tt tp content
                             = TargetRead res'
                  \<and> res' = (extractCode (split_lines content) (num_or k 5)
                              (p_context ps) s e ty tn c)\<lparr>tr_summary := tr_summary res'\<rparr>)"
proof -
  let ?cn = "if CHR ''.'' \<in> set tp then Some (hd (split_on (CHR ''.'') tp)) else None"
  let ?tn = "if CHR ''.'' \<in> set tp then hd (tl (split_on (CHR ''.'') tp)) else tp"
  let ?ex = "\<lambda>k. extractCode (split_lines content) (num_or k 5) (p_context ps)"
  from assms obtain ast where ast: "pf_parse pf content target_plugins = Inr ast"
    by (auto simp: resolve_target_def Let_def split: sum.splits)
  let ?run = "\<lambda>k. run_visitor (target_visit (?ex k) tt ?cn ?tn) (paths_below ast) None"
  have rt: "resolve_target pf (ps\<lparr>p_contextLines := k\<rparr>) tt tp content =
        (case ?run k of
           Some r \<Rightarrow> TargetRead (with_summary (ps\<lparr>p_contextLines := k\<rparr>) r)
         | None \<Rightarrow> Failure (createError
                             [Str tt, Str '' '', Str (quoted tp), Str '' not found in file'']
                             ''TARGET_NOT_FOUND'' (p_file_path (ps\<lparr>p_contextLines := k\<rparr>))
                             (p_mode (ps\<lparr>p_contextLines := k\<rparr>))
                             (Some (not_found_hint tt ?cn ?tn))))" for k
    using ast by (simp add: resolve_target_def Let_def traverseFn_def)
  have ps_eq: "ps\<lparr>p_contextLines := p_contextLines ps\<rparr> = ps" by simp
  from rt [of "p_contextLines ps"] assms obtain r
    where r: "?run (p_contextLines ps) = Some r" and res: "res = with_summary ps r"
    unfolding ps_eq by (auto split: option.splits)
  have cases: "(?run (p_contextLines ps) = None \<and> ?run k = None)
      \<or> (\<exists>s e ty c. ?run (p_contextLines ps) = Some (?ex (p_contextLines ps) s e ty ?tn c)
                    \<and> ?run k = Some (?ex k s e ty ?tn c))" for k
    by (rule run_visitor_target_cases)
  from cases [of "p_contextLines ps"] r obtain s e ty c
    where sr: "r = ?ex (p_contextLines ps) s e ty ?tn c"
    by auto
  have inj: "?ex (p_contextLines ps) s e ty ?tn c = ?ex (p_contextLines ps) s' e' ty' ?tn c'
      \<Longrightarrow> ?ex k s e ty ?tn c = ?ex k s' e' ty' ?tn c'" for k s' e' ty' c'
    by (auto simp: extractCode_def)
  have all: "\<exists>res'. resolve_target pf (ps\<lparr>p_contextLines := k\<rparr>) tt tp content
                             = TargetRead res'
                  \<and> res' = (?ex k s e ty ?tn c)\<lparr>tr_summary := tr_summary res'\<rparr>" for k
  proof -
    from cases [of k] r sr obtain s' e' ty' c'
      where "?ex (p_contextLines ps) s e ty ?tn c = ?ex (p_contextLines ps) s' e' ty' ?tn c'"
        and "?run k = Some (?ex k s' e' ty' ?tn c')"
      by auto
    with inj [of s' e' ty' c' k] have "?run k = Some (?ex k s e ty ?tn c)" by simp
    then show ?thesis
      using with_summary_fields [of "ps\<lparr>p_contextLines := k\<rparr>" "?ex k s e ty ?tn c"]
      by (simp add: rt)
  qed
  from res sr with_summary_fields [of ps r] have "res = (?ex (p_contextLines ps) s e ty ?tn c)\<lparr>tr_summary := tr_summary res\<rparr>"
    by simp
  with all show ?thesis by blast
qed

lemma readTarget_resolve:
  "readTarget pf ps tgt content language = TargetRead res \<Longrightarrow>
     readTarget pf ps tgt content language =
       resolve_target pf ps (hd (split_on (CHR '':'') tgt))
         (case split_on (CHR '':'') tgt of t # pth # rest \<Rightarrow> pth | _ \<Rightarrow> []) content"
  by (auto simp: readTarget_def Let_def readOutline_not_TargetRead
        split: result.splits if_splits)

lemma readTarget_resolve_any:
  "readTarget pf ps tgt content language = TargetRead res \<Longrightarrow>
     readTarget pf (ps\<lparr>p_contextLines := k\<rparr>) tgt content language =
       resolve_target pf (ps\<lparr>p_contextLines := k\<rparr>) (hd (split_on (CHR '':'') tgt))
         (case split_on (CHR '':'') tgt of t # pth # rest \<Rightarrow> pth | _ \<Rightarrow> []) content"
  by (auto simp: readTarget_def Let_def readOutline_not_TargetRead
        split: result.splits if_splits)

text \<open>The same for \<open>execute\<close>.\<close>

lemma execute_TargetRead:
  assumes "execute pf ps = TargetRead res"
  shows "\<exists>bytes s e ty tn c.
           pf_files pf (p_file_path ps) = Some (RegularFile bytes)
           \<and> res = (extractCode (split_lines (utf8_decode bytes)) (num_or (p_contextLines ps) 5)
                      (p_context ps) s e ty tn c)\<lparr>tr_summary := tr_summary res\<rparr>
           \<and> (\<forall>k. \<exists>res'. execute pf (ps\<lparr>p_contextLines := k\<rparr>) = TargetRead res'
                  \<and> res' = (extractCode (split_lines (utf8_decode bytes)) (num_or k 5)
                              (p_context ps) s e ty tn c)\<lparr>tr_summary := tr_summary res'\<rparr>)"
proof -
  from assms obtain bytes where fl: "pf_files pf (p_file_path ps) = Some (RegularFile bytes)"
    by (auto simp: execute_def split: option.splits fs_entry.splits)
  let ?content = "utf8_decode bytes"
  let ?lang = "pf_detectLanguage pf (p_file_path ps)"
  from assms fl obtain tgt where md: "p_mode ps = target" and tgt: "p_target ps = Some tgt"
    and ne: "tgt \<noteq> []" and rt: "readTarget pf ps tgt ?content ?lang = TargetRead res"
    by (auto simp: execute_def Let_def readOutline_not_TargetRead
          split: read_mode.splits option.splits if_splits sum.splits)
  have ex: "execute pf (ps\<lparr>p_contextLines := k\<rparr>)
              = readTarget pf (ps\<lparr>p_contextLines := k\<rparr>) tgt ?content ?lang" for k
    using fl md tgt ne by (simp add: execute_def Let_def)
  from resolve_target_TargetRead [OF rt [unfolded readTarget_resolve [OF rt]]]
  show ?thesis
    using fl ex readTarget_resolve_any [OF rt] by auto
qed

subsection \<open>Slices\<close>

lemma take_drop_reads:
  "take n (drop m xs) = map ((!) xs) [m..<min (m + n) (length xs)]"
  by (rule nth_equalityI) auto

lemma js_slice_reads:
  "\<exists>i j. j \<le> length xs \<and> js_slice xs a b = map ((!) xs) [i..<j]"
proof -
  obtain m n where "js_slice xs a b = take n (drop m xs)"
    by (simp add: js_slice_def Let_def)
  then have "js_slice xs a b = map ((!) xs) [m..<min (m + n) (length xs)]"
    by (simp add: take_drop_reads)
  moreover have "min (m + n) (length xs) \<le> length xs" by simp
  ultimately show ?thesis by blast
qed

lemma join_lines_reads_empty: "join_lines (map ((!) xs) [0..<0]) = []"
  by (simp add: join_lines_def)

lemma extractCode_reads:
  "\<exists>i j i' j' i'' j''.
     j \<le> length ls \<and> j' \<le> length ls \<and> j'' \<le> length ls
     \<and> tr_code (extractCode ls k ctx s e ty tn c) = join_lines (map ((!) ls) [i..<j])
     \<and> tr_context_before (extractCode ls k ctx s e ty tn c) = join_lines (map ((!) ls) [i'..<j'])
     \<and> tr_context_after (extractCode ls k ctx s e ty tn c) = join_lines (map ((!) ls) [i''..<j''])"
proof -
  obtain i j where c: "j \<le> length ls" "code_slice ls s e = map ((!) ls) [i..<j]"
    unfolding code_slice_def using js_slice_reads by blast
  obtain i' j' where b: "j' \<le> length ls"
      "(if ctx then join_lines (before_slice ls k s) else []) = join_lines (map ((!) ls) [i'..<j'])"
  proof (cases ctx)
    case True
    obtain i' j' where "j' \<le> length ls" "before_slice ls k s = map ((!) ls) [i'..<j']"
      unfolding before_slice_def using js_slice_reads by blast
    with True that show ?thesis by simp
  next
    case False
    with that [of 0 0] join_lines_reads_empty [of ls] show ?thesis by simp
  qed
  obtain i'' j'' where a: "j'' \<le> length ls"
      "(if ctx then join_lines (after_slice ls k e) else []) = join_lines (map ((!) ls) [i''..<j''])"
  proof (cases ctx)
    case True
    obtain i'' j'' where "j'' \<le> length ls" "after_slice ls k e = map ((!) ls) [i''..<j'']"
      unfolding after_slice_def using js_slice_reads by blast
    with True that show ?thesis by simp
  next
    case False
    with that [of 0 0] join_lines_reads_empty [of ls] show ?thesis by simp
  qed
  from c b a show ?thesis
    unfolding extractCode_def by (simp del: upt_eq_Nil_conv) blast
qed

text \<open>
  C6. For every successful target extraction on a file and every value \<open>k\<close> of
  \<open>contextLines\<close>, however large, the extraction with \<open>k\<close> succeeds as well, at the same
  lines and with the same code, and its code slice and its two context slices are each made
  of the lines of the file at consecutive indices below a bound that is at most the number
  of lines: no slice reads before the first or past the last line.
\<close>

theorem target_slices_in_bounds:
  assumes "execute pf ps = TargetRead res"
    and "pf_files pf (p_file_path ps) = Some (RegularFile bytes)"
  shows "\<exists>res' i j i' j' i'' j''.
           execute pf (ps\<lparr>p_contextLines := k\<rparr>) = TargetRead res'
           \<and> tr_line res' = tr_line res \<and> tr_end_line res' = tr_end_line res
           \<and> tr_code res' = tr_code res
           \<and> j \<le> length (split_lines (utf8_decode bytes))
           \<and> j' \<le> length (split_lines (utf8_decode bytes))
           \<and> j'' \<le> length (split_lines (utf8_decode bytes))
           \<and> tr_code res' =
               join_lines (map ((!) (split_lines (utf8_decode bytes))) [i..<j])
           \<and> tr_context_before res' =
               join_lines (map ((!) (split_lines (utf8_decode bytes))) [i'..<j'])
           \<and> tr_context_after res' =
               join_lines (map ((!) (split_lines (utf8_decode bytes))) [i''..<j''])"
proof -
  from execute_TargetRead [OF assms(1)] assms(2) obtain s e ty tn c
    where res: "res = (extractCode (split_lines (utf8_decode bytes)) (num_or (p_contextLines ps) 5)
                      (p_context ps) s e ty tn c)\<lparr>tr_summary := tr_summary res\<rparr>"
      and all: "\<And>k. \<exists>res'. execute pf (ps\<lparr>p_contextLines := k\<rparr>) = TargetRead res'
                  \<and> res' = (extractCode (split_lines (utf8_decode bytes)) (num_or k 5)
                              (p_context ps) s e ty tn c)\<lparr>tr_summary := tr_summary res'\<rparr>"
    by auto
  let ?ls = "split_lines (utf8_decode bytes)"
  let ?x = "extractCode ?ls (num_or k 5) (p_context ps) s e ty tn c"
  from all [of k] obtain res'
    where ex: "execute pf (ps\<lparr>p_contextLines := k\<rparr>) = TargetRead res'"
      and res': "res' = ?x\<lparr>tr_summary := tr_summary res'\<rparr>"
    by blast
  have f1: "tr_line res' = tr_line res" "tr_end_line res' = tr_end_line res"
    "tr_code res' = tr_code res"
    by (subst res', subst res, simp add: extractCode_def)+
  have f2: "tr_code res' = tr_code ?x" "tr_context_before res' = tr_context_before ?x"
    "tr_context_after res' = tr_context_after ?x"
    by (subst res', simp)+
  from extractCode_reads [of ?ls "num_or k 5" "p_context ps" s e ty tn c] ex f1 f2
  show ?thesis by metis
qed

subsection \<open>Target extraction on the ten-line file\<close>

lemma ten_parse: "pf_parse sample_platform (ascii ten_text) plugins = Inr ten_ast"
  by (simp add: sample_platform_def sample_parse_def)

lemma ten_traverse:
  "traverseFn ten_ast (target_visit ex ''function'' None ''f'') None
     = Some (ex 5 6 function_target ''f'' None)"
  by (simp add: traverseFn_def paths_below_def ten_ast_def stmt_def paths_from.simps
        target_visit_def target_FunctionDeclaration_def at_lines_def start_line_of_def
        end_line_of_def num_or_def)

lemma ten_target:
  "execute sample_platform
     ((request ''/ten.js'' target)\<lparr>p_target := Some ''function:f'', p_contextLines := k\<rparr>)
   = TargetRead (extractCode (split_lines (ascii ten_text)) (num_or k 5) True 5 6
                   function_target ''f'' None)"
  by (simp add: execute_def request_def ten_file ten_decode readTarget_def resolve_target_def
        Let_def ten_parse ten_traverse with_summary_def)

lemma ten_extract_2:
  "extractCode (split_lines (ascii ten_text)) 2 True 5 6 function_target ''f'' None
   = \<lparr>tr_target_type = function_target, tr_target_name = ''f'', tr_class_name = None,
      tr_line = 5, tr_end_line = 6, tr_code = ascii ''function f(){\<newline>}'',
      tr_context_before = ascii ''d'', tr_context_after = ascii ''g\<newline>h'',
      tr_summary = None\<rparr>"
  unfolding ten_split
  by (simp add: extractCode_def code_slice_def before_slice_def after_slice_def
        contextStart_def contextEnd_def js_slice_def join_lines_def ascii_def newline_def)

lemma ten_extract_5:
  "extractCode (split_lines (ascii ten_text)) 5 True 5 6 function_target ''f'' None
   = \<lparr>tr_target_type = function_target, tr_target_name = ''f'', tr_class_name = None,
      tr_line = 5, tr_end_line = 6, tr_code = ascii ''function f(){\<newline>}'',
      tr_context_before = ascii ''a\<newline>b\<newline>c\<newline>d'',
      tr_context_after = ascii ''g\<newline>h\<newline>i\<newline>j'',
      tr_summary = None\<rparr>"
  unfolding ten_split
  by (simp add: extractCode_def code_slice_def before_slice_def after_slice_def
        contextStart_def contextEnd_def js_slice_def join_lines_def ascii_def newline_def)

text \<open>
  C3, where the code departs from it. For the function on lines 5 and 6 of the ten-line file
  and \<open>contextLines = 2\<close>, the before-context is line 4 alone, not lines 3 through 4:
  \<open>contextStart\<close> is used as an array index without the \<open>- 1\<close> that makes a line number
  one. The after-context is lines 7 through 8, as claimed. With \<open>contextLines = 0\<close> the
  code falls back to 5 and both contexts are non-empty.
\<close>

theorem target_context_window_short:
  "execute sample_platform
     ((request ''/ten.js'' target)\<lparr>p_target := Some ''function:f'', p_contextLines := 2\<rparr>)
   = TargetRead
       \<lparr>tr_target_type = function_target, tr_target_name = ''f'', tr_class_name = None,
        tr_line = 5, tr_end_line = 6, tr_code = ascii ''function f(){\<newline>}'',
        tr_context_before = ascii ''d'', tr_context_after = ascii ''g\<newline>h'',
        tr_summary = None\<rparr>
   \<and> join_lines (lines_from_to (split_lines (utf8_decode (map of_char ten_text)))
                   (max 1 (5 - 2)) (5 - 1)) = ascii ''c\<newline>d''
   \<and> execute sample_platform
     ((request ''/ten.js'' target)\<lparr>p_target := Some ''function:f'', p_contextLines := 0\<rparr>)
   = TargetRead
       \<lparr>tr_target_type = function_target, tr_target_name = ''f'', tr_class_name = None,
        tr_line = 5, tr_end_line = 6, tr_code = ascii ''function f(){\<newline>}'',
        tr_context_before = ascii ''a\<newline>b\<newline>c\<newline>d'',
        tr_context_after = ascii ''g\<newline>h\<newline>i\<newline>j'',
        tr_summary = None\<rparr>"
proof -
  have up: "[3..4] = [3, 4::int]" by (simp add: upto_rec1)
  have "join_lines (lines_from_to (split_lines (utf8_decode (map of_char ten_text)))
                   (max 1 (5 - 2)) (5 - 1)) = ascii ''c\<newline>d''"
    unfolding ten_decode ten_split
    by (simp add: lines_from_to_def up join_lines_def ascii_def newline_def)
  then show ?thesis
    by (simp add: ten_target num_or_def ten_extract_2 ten_extract_5)
qed

text \<open>The function of the ten-line file, extracted with \<open>contextLines = 1000\<close>.\<close>

theorem target_slices_in_bounds_witness:
  "execute sample_platform ((request ''/ten.js'' target)\<lparr>p_target := Some ''function:f''\<rparr>)
     = TargetRead (extractCode (split_lines (ascii ten_text)) 5 True 5 6
                     function_target ''f'' None)
   \<and> (\<exists>res' i j i' j' i'' j''.
         execute sample_platform
           ((request ''/ten.js'' target)\<lparr>p_target := Some ''function:f'',
                                          p_contextLines := 1000\<rparr>) = TargetRead res'
         \<and> tr_line res' = 5 \<and> tr_end_line res' = 6
         \<and> j \<le> 10 \<and> j' \<le> 10 \<and> j'' \<le> 10
         \<and> tr_code res' = join_lines (map ((!) (split_lines (ascii ten_text))) [i..<j])
         \<and> tr_context_before res' = join_lines (map ((!) (split_lines (ascii ten_text))) [i'..<j'])
         \<and> tr_context_after res' = join_lines (map ((!) (split_lines (ascii ten_text))) [i''..<j'']))"
proof -
  let ?ps = "(request ''/ten.js'' target)\<lparr>p_target := Some ''function:f''\<rparr>"
  let ?r = "extractCode (split_lines (ascii ten_text)) 5 True 5 6 function_target ''f'' None"
  have eq: "?ps = (request ''/ten.js'' target)\<lparr>p_target := Some ''function:f'',
                                                p_contextLines := 5\<rparr>"
    by (simp add: request_def)
  have n5: "num_or 5 5 = 5" by (simp add: num_or_def)
  have h: "execute sample_platform ?ps = TargetRead ?r"
    by (subst eq) (simp only: ten_target n5)
  have fl: "pf_files sample_platform (p_file_path ?ps) = Some (RegularFile (map of_char ten_text))"
    by (simp add: request_def ten_file)
  have len: "length (split_lines (ascii ten_text)) = 10" by (simp add: ten_split)
  have at: "tr_line ?r = 5" "tr_end_line ?r = 6" by (simp_all add: extractCode_def)
  from target_slices_in_bounds [OF h fl, of 1000] obtain res' i j i' j' i'' j''
    where e: "execute sample_platform
                ((request ''/ten.js'' target)\<lparr>p_target := Some ''function:f'',
                                               p_contextLines := 1000\<rparr>) = TargetRead res'"
      and l: "tr_line res' = 5" "tr_end_line res' = 6"
      and b: "j \<le> 10" "j' \<le> 10" "j'' \<le> 10"
      and c: "tr_code res' = join_lines (map ((!) (split_lines (ascii ten_text))) [i..<j])"
        "tr_context_before res' = join_lines (map ((!) (split_lines (ascii ten_text))) [i'..<j'])"
        "tr_context_after res' = join_lines (map ((!) (split_lines (ascii ten_text))) [i''..<j''])"
    unfolding ten_decode len at by blast
  show ?thesis
  proof (intro conjI exI)
    show "execute sample_platform ?ps = TargetRead ?r" by (rule h)
    show "execute sample_platform
            ((request ''/ten.js'' target)\<lparr>p_target := Some ''function:f'',
                                           p_contextLines := 1000\<rparr>) = TargetRead res'"
      by (rule e)
  qed (rule l b c)+
qed

subsection \<open>Joining and splitting lines\<close>













subsection \<open>Round trip\<close>









lemma one_file:
  "pf_files sample_platform ''/one.js'' = Some (RegularFile (map of_char one_text))"
  by (simp add: sample_platform_def sample_files_def)

lemma one_decode: "utf8_decode (map of_char one_text) = ascii one_text"
  by (rule utf8_decode_ascii) (simp add: one_text_def)

lemma one_parse: "pf_parse sample_platform (ascii one_text) plugins = Inr one_ast"
  by (simp add: sample_platform_def sample_parse_def ten_text_def one_text_def ascii_def)





subsection \<open>Functions on the lines of a class\<close>

lemma run_visitor_never_stops:
  "run_visitor (\<lambda>p s. (f p s, False)) ps s = fold f ps s"
  by (induction ps arbitrary: s) simp_all

lemma outline_visit_lines_mono:
  "os_classBodyLines st \<subseteq> os_classBodyLines (outline_visit jsdoc content p st)"
  unfolding outline_visit_def outline_FunctionDeclaration_def outline_VariableDeclarator_def
    outline_ClassDeclaration_def outline_ImportDeclaration_def outline_CallExpression_def
    outline_ExportNamedDeclaration_def outline_ExportDefaultDeclaration_def Let_def
  by (simp split: node.split option.split list.split)

lemma outline_fold_lines_mono:
  "os_classBodyLines st \<subseteq> os_classBodyLines (fold (outline_visit jsdoc content) ps st)"
proof (induction ps arbitrary: st)
  case Nil
  show ?case by simp
next
  case (Cons p ps)
  from outline_visit_lines_mono [of st jsdoc content p] Cons [of "outline_visit jsdoc content p st"]
  show ?case by auto
qed

lemma class_lines_recorded:
  assumes "named_class_span (fst p) = Some (lo, hi)"
  shows "{lo..hi} \<subseteq> os_classBodyLines (outline_visit jsdoc content p st)"
  using assms
  unfolding outline_visit_def outline_ClassDeclaration_def named_class_span_def Let_def
  by (auto split: node.splits option.splits)

lemma class_lines_recorded_fold:
  assumes "p \<in> set ps" and "named_class_span (fst p) = Some (lo, hi)"
  shows "{lo..hi} \<subseteq> os_classBodyLines (fold (outline_visit jsdoc content) ps st)"
proof -
  from assms(1) obtain xs ys where ps: "ps = xs @ p # ys" by (auto simp: in_set_conv_decomp)
  let ?st = "fold (outline_visit jsdoc content) xs st"
  have "{lo..hi} \<subseteq> os_classBodyLines (outline_visit jsdoc content p ?st)"
    using assms(2) by (rule class_lines_recorded)
  also have "\<dots> \<subseteq> os_classBodyLines (fold (outline_visit jsdoc content) ys
                                         (outline_visit jsdoc content p ?st))"
    by (rule outline_fold_lines_mono)
  finally show ?thesis by (simp add: ps)
qed

lemma function_on_class_line_skipped:
  assumes "is_function_shaped n" and "start_line_of (node_loc n) \<in> os_classBodyLines st"
  shows "outline_visit jsdoc content (n, parent) st = st"
  using assms
  unfolding outline_visit_def outline_FunctionDeclaration_def outline_VariableDeclarator_def
    is_function_shaped_def node_loc_def Let_def
  by (auto split: node.splits option.splits)

text \<open>
  C10, as the code has it. In the outline traversal, a function declaration with a name or
  a variable-bound function whose start line lies within the first and last line of a class
  declaration that has a name and is entered earlier in traversal order is left out: the
  traversal ends in the state it would reach if the path of that node were not visited at
  all. Only the line number is compared with the recorded spans; nothing is asked about
  where the node stands in the tree. A class declaration without a name records no span.
\<close>

theorem outline_function_on_class_line_omitted:
  assumes "paths_below ast = pre @ (n, parent) # post"
    and "is_function_shaped n"
    and "(cls, cparent) \<in> set pre"
    and "named_class_span cls = Some (lo, hi)"
    and "lo \<le> start_line_of (node_loc n)"
    and "start_line_of (node_loc n) \<le> hi"
  shows "traverseFn ast (\<lambda>pth s. (outline_visit jsdoc content pth s, False)) outline_init
           = fold (outline_visit jsdoc content) (pre @ post) outline_init"
proof -
  let ?v = "outline_visit jsdoc content"
  let ?st = "fold ?v pre outline_init"
  from assms(3,4) have "{lo..hi} \<subseteq> os_classBodyLines ?st"
    by (intro class_lines_recorded_fold [where p = "(cls, cparent)"]) simp_all
  with assms(5,6) have "start_line_of (node_loc n) \<in> os_classBodyLines ?st" by auto
  with assms(2) have skip: "?v (n, parent) ?st = ?st"
    by (rule function_on_class_line_skipped)
  have "traverseFn ast (\<lambda>pth s. (?v pth s, False)) outline_init
          = fold ?v (pre @ (n, parent) # post) outline_init"
    by (simp add: traverseFn_def run_visitor_never_stops assms(1))
  also have "\<dots> = fold ?v post (?v (n, parent) ?st)" by simp
  also have "\<dots> = fold ?v (pre @ post) outline_init" by (simp add: skip)
  finally show ?thesis .
qed

lemma one_paths:
  "paths_below one_ast =
     [(one_program, one_ast), (one_class, one_program)]
     @ (one_function, one_program) # [(OtherNode [], one_function)]"
  by (simp add: paths_below_def one_ast_def one_program_def one_class_def one_function_def
        paths_from.simps)

lemma one_fold:
  "os_functions (fold (outline_visit jsdoc content)
      ([(one_program, one_ast), (one_class, one_program)] @ [(OtherNode [], one_function)])
      outline_init) = []"
  by (simp add: outline_visit_def outline_ClassDeclaration_def one_program_def one_class_def
        outline_init_def Let_def)

text \<open>
  The file \<open>class C {} function f(){}\<close>: the function stands after the class, on its
  line, and the outline has no function.
\<close>

theorem outline_function_on_class_line_omitted_witness:
  "paths_below one_ast =
     [(one_program, one_ast), (one_class, one_program)]
     @ (one_function, one_program) # [(OtherNode [], one_function)]
   \<and> is_function_shaped one_function
   \<and> named_class_span one_class = Some (1, 1)
   \<and> start_line_of (node_loc one_function) = 1
   \<and> one_function \<in> set (children one_program) \<and> one_function \<notin> set (children one_class)
   \<and> os_functions (traverseFn one_ast
         (\<lambda>pth s. (outline_visit (\<lambda>n. None) (ascii one_text) pth s, False)) outline_init) = []
   \<and> (\<exists>out. execute sample_platform (request ''/one.js'' outline) = OutlineRead out
          \<and> st_functions (or_structure out) = []
          \<and> function_count (or_stats out) = 0)"
proof -
  have h2: "is_function_shaped one_function"
    by (simp add: is_function_shaped_def one_function_def)
  have h3: "(one_class, one_program) \<in> set [(one_program, one_ast), (one_class, one_program)]"
    by simp
  have h4: "named_class_span one_class = Some (1, 1)"
    by (simp add: named_class_span_def one_class_def at_lines_def start_line_of_def
          end_line_of_def num_or_def)
  have line: "start_line_of (node_loc one_function) = 1"
    by (simp add: node_loc_def one_function_def at_lines_def start_line_of_def num_or_def)
  have h5: "1 \<le> start_line_of (node_loc one_function)"
    and h6: "start_line_of (node_loc one_function) \<le> 1"
    by (simp_all add: line)
  have pos: "one_function \<in> set (children one_program)"
    "one_function \<notin> set (children one_class)"
    by (simp_all add: one_program_def one_class_def one_function_def)
  from outline_function_on_class_line_omitted
         [OF one_paths h2 h3 h4 h5 h6, of "\<lambda>n. None" "ascii one_text"]
  have "os_functions (traverseFn one_ast
         (\<lambda>pth s. (outline_visit (\<lambda>n. None) (ascii one_text) pth s, False)) outline_init) = []"
    by (simp only: one_fold)
  note none = this
  have jd: "pf_extractJSDoc sample_platform = (\<lambda>n. None)"
    by (simp add: sample_platform_def)
  have "\<exists>out. execute sample_platform (request ''/one.js'' outline) = OutlineRead out
          \<and> st_functions (or_structure out) = []
          \<and> function_count (or_stats out) = 0"
    by (simp add: execute_def request_def one_file one_decode readOutline_def one_parse
          Let_def jd none deduplicateFunctions_def)
  with none one_paths h2 h4 line pos show ?thesis by blast
qed

lemma anon_file:
  "pf_files sample_platform ''/anon.js'' = Some (RegularFile (map of_char anon_text))"
  by (simp add: sample_platform_def sample_files_def)

lemma anon_decode: "utf8_decode (map of_char anon_text) = ascii anon_text"
  by (rule utf8_decode_ascii) (simp add: anon_text_def)

lemma anon_parse: "pf_parse sample_platform (ascii anon_text) plugins = Inr anon_ast"
  by (simp add: sample_platform_def sample_parse_def ten_text_def one_text_def shadow_text_def
        anon_text_def ascii_def)

lemma anon_paths:
  "paths_below anon_ast =
     [(anon_program, anon_ast), (anon_export, anon_program), (anon_class, anon_export),
      (anon_function, anon_program), (OtherNode [], anon_function)]"
  by (simp add: paths_below_def anon_ast_def anon_program_def anon_export_def anon_class_def
        anon_function_def paths_from.simps)

lemma anon_functions:
  "os_functions (traverseFn anon_ast
       (\<lambda>pth s. (outline_visit (\<lambda>n. None) content pth s, False)) outline_init)
     = [\<lparr>fn_name = ''f'', fn_line = 1, fn_column = 24, fn_async = False,
         fn_signature = ''function f()'', fn_type = function_declaration, fn_jsdoc = None\<rparr>]"
  unfolding traverseFn_def run_visitor_never_stops anon_paths
  by (simp add: outline_visit_def outline_ExportDefaultDeclaration_def
        outline_ClassDeclaration_def outline_FunctionDeclaration_def anon_program_def
        anon_export_def anon_class_def anon_function_def outline_init_def Let_def at_lines_def
        start_line_of_def start_column_of_def num_or_def param_names_def)

text \<open>
  C10 as stated fails: in \<open>export default class {} function f(){}\<close> the class is declared
  before the function and spans line 1, the function starts on line 1, and the outline lists
  the function. The class declaration has no name, so the visitor records none of its lines.
\<close>

theorem outline_unnamed_class_counterexample:
  "success (execute sample_platform (request ''/anon.js'' outline))
   \<and> outline_functions (execute sample_platform (request ''/anon.js'' outline))
       = [\<lparr>fn_name = ''f'', fn_line = 1, fn_column = 24, fn_async = False,
           fn_signature = ''function f()'', fn_type = function_declaration, fn_jsdoc = None\<rparr>]
   \<and> paths_below anon_ast =
       [(anon_program, anon_ast), (anon_export, anon_program), (anon_class, anon_export),
        (anon_function, anon_program), (OtherNode [], anon_function)]
   \<and> anon_class = ClassDeclaration None None [] (at_lines 1 15 1)
   \<and> is_function_shaped anon_function
   \<and> start_line_of (node_loc anon_class) = 1
   \<and> end_line_of (node_loc anon_class) (start_line_of (node_loc anon_class)) = 1
   \<and> start_line_of (node_loc anon_function) = 1"
proof -
  have jd: "pf_extractJSDoc sample_platform = (\<lambda>n. None)"
    by (simp add: sample_platform_def)
  have run: "success (execute sample_platform (request ''/anon.js'' outline))
      \<and> outline_functions (execute sample_platform (request ''/anon.js'' outline))
          = [\<lparr>fn_name = ''f'', fn_line = 1, fn_column = 24, fn_async = False,
              fn_signature = ''function f()'', fn_type = function_declaration,
              fn_jsdoc = None\<rparr>]"
    by (simp add: execute_def request_def anon_file anon_decode readOutline_def anon_parse
          Let_def jd anon_functions outline_functions_def deduplicateFunctions_def
          dedup_step_def map_has_def map_set_def func_key_def)
  have shaped: "is_function_shaped anon_function"
    by (simp add: is_function_shaped_def anon_function_def)
  have at: "start_line_of (node_loc anon_class) = 1"
    "end_line_of (node_loc anon_class) (start_line_of (node_loc anon_class)) = 1"
    "start_line_of (node_loc anon_function) = 1"
    by (simp_all add: node_loc_def anon_class_def anon_function_def at_lines_def
          start_line_of_def end_line_of_def num_or_def)
  from run anon_paths shaped at show ?thesis by (simp add: anon_class_def)
qed

subsection \<open>Resolving \<open>function:name\<close>\<close>
















end
